theory Spec2Isabelle
  imports Complex_Main
begin

section \<open>Optimizer update rules of the optimization notebooks\<close>

text \<open>
  The notebooks implement four first-order update rules (\<open>sgd_momentum\<close>, \<open>adagrad\<close>,
  \<open>rmsprop\<close>, \<open>adam\<close>) over mxnet arrays, and two-variable toy versions over Python floats.

  Numbers. Python floats and the elements of mxnet arrays are modelled as real numbers:
  rounding, overflow and the values NaN and Inf are outside the model (rounding is
  modelled separately, for the one comparison that depends on it, in the subsection on
  double-precision arithmetic). Where the source
  divides by zero or takes the root of a negative number the arrays of the source hold
  Inf or NaN, while the functions below return the value HOL gives (\<open>x / 0 = 0\<close>); the
  theorems that depend on such a value carry the hypothesis that keeps it away
  (for Adam: \<open>t \<ge> 1\<close>).

  Arrays. An array is the list of its elements; only arrays of equal shape are combined.
  For arrays of unequal shape mxnet broadcasts or raises; the model reports
  \<open>ShapeMismatch\<close> in both cases, and the theorems that state that a call succeeds assume
  equal shapes. The arrays passed to one call are taken to be distinct objects.

  Effects. The update rules return nothing and mutate the parameters, the states and (for
  Adam) the hyperparameter dictionary in place. A model returns the three of them after the
  call, or the exception raised; what was already mutated when an exception is raised is
  not modelled.
\<close>

subsection \<open>Exceptions\<close>

datatype error = KeyError string | NameError string | ShapeMismatch

definition bindE :: "error + 'a \<Rightarrow> ('a \<Rightarrow> error + 'b) \<Rightarrow> error + 'b" where
  "bindE m f = (case m of Inl e \<Rightarrow> Inl e | Inr x \<Rightarrow> f x)"

subsection \<open>Arrays, parameters, hyperparameters\<close>

type_synonym tensor = "real list"

text \<open>A parameter \<open>p\<close> is an array with its gradient \<open>p.grad\<close> attached.\<close>

record param =
  data :: tensor
  grad :: tensor

text \<open>\<open>hyperparams\<close> is a Python dict from names to numbers.\<close>

type_synonym hyperparams = "string \<rightharpoonup> real"

definition getitem :: "hyperparams \<Rightarrow> string \<Rightarrow> error + real" where
  "getitem hp k = (case hp k of None \<Rightarrow> Inl (KeyError k) | Some x \<Rightarrow> Inr x)"

text \<open>Arithmetic of arrays: with a scalar, and elementwise between two arrays.\<close>

definition nd_smul :: "real \<Rightarrow> tensor \<Rightarrow> tensor" where
  "nd_smul c xs = map (\<lambda>x. c * x) xs"

definition nd_sadd :: "tensor \<Rightarrow> real \<Rightarrow> tensor" where
  "nd_sadd xs c = map (\<lambda>x. x + c) xs"

definition nd_sdiv :: "tensor \<Rightarrow> real \<Rightarrow> tensor" where
  "nd_sdiv xs c = map (\<lambda>x. x / c) xs"

definition nd_square :: "tensor \<Rightarrow> tensor" where
  "nd_square xs = map (\<lambda>x. x * x) xs"

definition nd_sqrt :: "tensor \<Rightarrow> tensor" where
  "nd_sqrt xs = map sqrt xs"

definition nd_binop :: "(real \<Rightarrow> real \<Rightarrow> real) \<Rightarrow> tensor \<Rightarrow> tensor \<Rightarrow> error + tensor" where
  "nd_binop f xs ys =
     (if length xs = length ys then Inr (map2 f xs ys) else Inl ShapeMismatch)"

definition nd_add :: "tensor \<Rightarrow> tensor \<Rightarrow> error + tensor" where
  "nd_add = nd_binop (+)"

definition nd_sub :: "tensor \<Rightarrow> tensor \<Rightarrow> error + tensor" where
  "nd_sub = nd_binop (-)"

definition nd_div :: "tensor \<Rightarrow> tensor \<Rightarrow> error + tensor" where
  "nd_div = nd_binop (/)"

subsection \<open>The loop \<open>for p, s in zip(params, states)\<close>\<close>

text \<open>
  \<open>zip\<close> stops at the end of the shorter list; the parameters and states beyond it are
  not touched. The body mutates \<open>p\<close> and \<open>s\<close> in place, so the model returns both lists
  with the visited entries replaced.
\<close>

fun for_zip :: "('p \<Rightarrow> 's \<Rightarrow> error + ('p \<times> 's)) \<Rightarrow> 'p list \<Rightarrow> 's list \<Rightarrow> error + ('p list \<times> 's list)" where
  "for_zip body (p # ps) (s # ss) =
     bindE (body p s) (\<lambda>(p', s').
     bindE (for_zip body ps ss) (\<lambda>(ps', ss').
     Inr (p' # ps', s' # ss')))"
| "for_zip body ps ss = Inr (ps, ss)"

subsection \<open>Momentum\<close>

text \<open>
  \<^verbatim>\<open>
  def sgd_momentum(params, states, hyperparams):
      for p, v in zip(params, states):
          v[:] = hyperparams['momentum'] * v + hyperparams['lr'] * p.grad
          p[:] -= v
  \<close>
\<close>

definition sgd_momentum_body :: "hyperparams \<Rightarrow> param \<Rightarrow> tensor \<Rightarrow> error + (param \<times> tensor)" where
  "sgd_momentum_body hp p v =
     bindE (getitem hp ''momentum'') (\<lambda>m.
     bindE (getitem hp ''lr'') (\<lambda>lr.
     bindE (nd_add (nd_smul m v) (nd_smul lr (grad p))) (\<lambda>v'.
     bindE (nd_sub (data p) v') (\<lambda>x'.
     Inr (p\<lparr>data := x'\<rparr>, v')))))"

definition sgd_momentum :: "param list \<Rightarrow> tensor list \<Rightarrow> hyperparams \<Rightarrow> error + (param list \<times> tensor list \<times> hyperparams)" where
  "sgd_momentum params states hp =
     bindE (for_zip (sgd_momentum_body hp) params states) (\<lambda>(ps, ss).
     Inr (ps, ss, hp))"

subsection \<open>Adagrad\<close>

text \<open>
  \<^verbatim>\<open>
  def adagrad(params, states, hyperparams):
      eps = 1e-6
      for p, s in zip(params, states):
          s[:] += p.grad.square()
          p[:] -= hyperparams['lr'] * p.grad / (s + eps).sqrt()
  \<close>
\<close>

definition eps :: real where
  "eps = 1 / 1000000"

definition adagrad_body :: "hyperparams \<Rightarrow> param \<Rightarrow> tensor \<Rightarrow> error + (param \<times> tensor)" where
  "adagrad_body hp p s =
     bindE (nd_add s (nd_square (grad p))) (\<lambda>s'.
     bindE (getitem hp ''lr'') (\<lambda>lr.
     bindE (nd_div (nd_smul lr (grad p)) (nd_sqrt (nd_sadd s' eps))) (\<lambda>u.
     bindE (nd_sub (data p) u) (\<lambda>x'.
     Inr (p\<lparr>data := x'\<rparr>, s')))))"

definition adagrad :: "param list \<Rightarrow> tensor list \<Rightarrow> hyperparams \<Rightarrow> error + (param list \<times> tensor list \<times> hyperparams)" where
  "adagrad params states hp =
     bindE (for_zip (adagrad_body hp) params states) (\<lambda>(ps, ss).
     Inr (ps, ss, hp))"

subsection \<open>RMSProp\<close>

text \<open>
  \<^verbatim>\<open>
  def rmsprop(params, states, hyperparams):
      gamma, eps = hyperparams['gamma'], 1e-6
      for p, s in zip(params, states):
          s[:] = gamma * s + (1 - gamma) * p.grad.square()
          p[:] -= hyperparams['lr'] * p.grad / (s + eps).sqrt()
  \<close>
  The state update is the exponentially weighted moving average of the notebook on
  momentum, \<open>y\<^sub>t = \<gamma> y\<^sub>t\<^sub>-\<^sub>1 + (1 - \<gamma>) x\<^sub>t\<close>, applied to the squared gradient.
\<close>

definition rmsprop_body :: "real \<Rightarrow> hyperparams \<Rightarrow> param \<Rightarrow> tensor \<Rightarrow> error + (param \<times> tensor)" where
  "rmsprop_body gamma hp p s =
     bindE (nd_add (nd_smul gamma s) (nd_smul (1 - gamma) (nd_square (grad p)))) (\<lambda>s'.
     bindE (getitem hp ''lr'') (\<lambda>lr.
     bindE (nd_div (nd_smul lr (grad p)) (nd_sqrt (nd_sadd s' eps))) (\<lambda>u.
     bindE (nd_sub (data p) u) (\<lambda>x'.
     Inr (p\<lparr>data := x'\<rparr>, s')))))"

definition rmsprop :: "param list \<Rightarrow> tensor list \<Rightarrow> hyperparams \<Rightarrow> error + (param list \<times> tensor list \<times> hyperparams)" where
  "rmsprop params states hp =
     bindE (getitem hp ''gamma'') (\<lambda>gamma.
     bindE (for_zip (rmsprop_body gamma hp) params states) (\<lambda>(ps, ss).
     Inr (ps, ss, hp)))"

subsection \<open>Adam\<close>

text \<open>
  \<^verbatim>\<open>
  def adam(params, states, hyperparams):
      beta1, beta2, eps = 0.9, 0.999, 1e-6
      for p, (v, s) in zip(params, states):
          v[:] = beta1 * v + (1 - beta1) * p.grad
          s[:] = beta2 * s + (1 - beta2) * p.grad.square()
          v_bias_corr = v / (1 - beta1 ** hyperparams['t'])
          s_bias_corr = s / (1 - beta2 ** hyperparams['t'])
          p[:] -= hyperparams['lr'] * v_bias_corr / (s_bias_corr.sqrt() + eps)
      hyperparams['t'] += 1
  \<close>
  The power \<open>beta ** t\<close> of a positive float is \<open>powr\<close>.
\<close>

definition beta1 :: real where
  "beta1 = 9 / 10"

definition beta2 :: real where
  "beta2 = 999 / 1000"

definition adam_body :: "hyperparams \<Rightarrow> param \<Rightarrow> tensor \<times> tensor \<Rightarrow> error + (param \<times> tensor \<times> tensor)" where
  "adam_body hp p vs =
     (case vs of (v, s) \<Rightarrow>
     bindE (nd_add (nd_smul beta1 v) (nd_smul (1 - beta1) (grad p))) (\<lambda>v'.
     bindE (nd_add (nd_smul beta2 s) (nd_smul (1 - beta2) (nd_square (grad p)))) (\<lambda>s'.
     bindE (getitem hp ''t'') (\<lambda>t1.
     let v_bias_corr = nd_sdiv v' (1 - beta1 powr t1) in
     bindE (getitem hp ''t'') (\<lambda>t2.
     let s_bias_corr = nd_sdiv s' (1 - beta2 powr t2) in
     bindE (getitem hp ''lr'') (\<lambda>lr.
     bindE (nd_div (nd_smul lr v_bias_corr) (nd_sadd (nd_sqrt s_bias_corr) eps)) (\<lambda>u.
     bindE (nd_sub (data p) u) (\<lambda>x'.
     Inr (p\<lparr>data := x'\<rparr>, v', s')))))))))"

definition adam :: "param list \<Rightarrow> (tensor \<times> tensor) list \<Rightarrow> hyperparams \<Rightarrow> error + (param list \<times> (tensor \<times> tensor) list \<times> hyperparams)" where
  "adam params states hp =
     bindE (for_zip (adam_body hp) params states) (\<lambda>(ps, ss).
     bindE (getitem hp ''t'') (\<lambda>t.
     Inr (ps, ss, hp(''t'' \<mapsto> t + 1))))"

subsection \<open>Initial states\<close>

text \<open>
  \<^verbatim>\<open>
  def init_rmsprop_states():
      s_w = nd.zeros((features.shape[1], 1))
      s_b = nd.zeros(1)
      return (s_w, s_b)

  def init_adam_states():
      v_w, v_b = nd.zeros((features.shape[1], 1)), nd.zeros(1)
      s_w, s_b = nd.zeros((features.shape[1], 1)), nd.zeros(1)
      return ((v_w, s_w), (v_b, s_b))
  \<close>
  \<open>init_momentum_states\<close> and \<open>init_adagrad_states\<close> read as \<open>init_rmsprop_states\<close>.
  The number of features is the argument \<open>d\<close>.
\<close>

definition nd_zeros :: "nat \<Rightarrow> tensor" where
  "nd_zeros n = replicate n 0"

definition init_rmsprop_states :: "nat \<Rightarrow> tensor list" where
  "init_rmsprop_states d = [nd_zeros d, nd_zeros 1]"

definition init_adam_states :: "nat \<Rightarrow> (tensor \<times> tensor) list" where
  "init_adam_states d = [(nd_zeros d, nd_zeros d), (nd_zeros 1, nd_zeros 1)]"

subsection \<open>The toy objective and the two-variable momentum step\<close>

text \<open>
  \<^verbatim>\<open>
  def f_2d(x1, x2):
      return 0.1 * x1 ** 2 + 2 * x2 ** 2

  def momentum_2d(x1, x2, v1, v2):
      v1 = gamma * v1 + eta * 0.2 * x1
      v2 = gamma * v2 + eta * 4 * x2
      return x1 - v1, x2 - v2, v1, v2
  \<close>
  \<open>eta\<close> and \<open>gamma\<close> are global variables of the notebook, read when the function runs;
  the model takes the global namespace as its first argument, and reading a name that is
  not bound raises \<open>NameError\<close>.
\<close>

type_synonym globals = "string \<rightharpoonup> real"

definition load_global :: "globals \<Rightarrow> string \<Rightarrow> error + real" where
  "load_global G k = (case G k of None \<Rightarrow> Inl (NameError k) | Some x \<Rightarrow> Inr x)"

definition f_2d :: "real \<Rightarrow> real \<Rightarrow> real" where
  "f_2d x1 x2 = 1 / 10 * x1 ^ 2 + 2 * x2 ^ 2"

definition momentum_2d :: "globals \<Rightarrow> real \<Rightarrow> real \<Rightarrow> real \<Rightarrow> real \<Rightarrow> error + (real \<times> real \<times> real \<times> real)" where
  "momentum_2d G x1 x2 v1 v2 =
     bindE (load_global G ''gamma'') (\<lambda>gamma.
     bindE (load_global G ''eta'') (\<lambda>eta.
     let v1' = gamma * v1 + eta * (2 / 10) * x1 in
     bindE (load_global G ''gamma'') (\<lambda>gamma'.
     bindE (load_global G ''eta'') (\<lambda>eta'.
     let v2' = gamma' * v2 + eta' * 4 * x2 in
     Inr (x1 - v1', x2 - v2', v1', v2')))))"



subsection \<open>Exponentially weighted moving average\<close>

text \<open>
  The recurrence of the notebook on momentum, \<open>y\<^sub>t = \<gamma> y\<^sub>t\<^sub>-\<^sub>1 + (1 - \<gamma>) x\<^sub>t\<close>, which
  \<open>rmsprop\<close> and \<open>adam\<close> apply to each element of their states; \<open>ewma_run\<close> feeds it a
  sequence of samples from the zero state.
\<close>

definition ewma :: "real \<Rightarrow> real \<Rightarrow> real \<Rightarrow> real" where
  "ewma gamma y x = gamma * y + (1 - gamma) * x"

definition ewma_run :: "real \<Rightarrow> real list \<Rightarrow> real" where
  "ewma_run gamma xs = foldl (ewma gamma) 0 xs"

subsection \<open>Repeated calls of an update rule\<close>

text \<open>
  Modelled from the spec: the training driver and the gradient provider (6), which are
  \<open>d2l.train_ch7\<close> and mxnet's autograd and not part of the notebooks' source. The driver
  repeatedly calls the update rule with the same parameters, states and hyperparameters;
  before each call the gradient provider overwrites the gradient of every parameter. The
  gradients of each call are the elements of the list \<open>gss\<close>, which is arbitrary.
\<close>

fun set_grads :: "tensor list \<Rightarrow> param list \<Rightarrow> param list" where
  "set_grads (g # gs) (p # ps) = p\<lparr>grad := g\<rparr> # set_grads gs ps"
| "set_grads gs ps = ps"

fun train_steps :: "(param list \<Rightarrow> 's \<Rightarrow> hyperparams \<Rightarrow> error + (param list \<times> 's \<times> hyperparams)) \<Rightarrow> tensor list list \<Rightarrow> param list \<Rightarrow> 's \<Rightarrow> hyperparams \<Rightarrow> error + (param list \<times> 's \<times> hyperparams)" where
  "train_steps rule [] ps ss hp = Inr (ps, ss, hp)"
| "train_steps rule (gs # gss) ps ss hp =
     bindE (rule (set_grads gs ps) ss hp) (\<lambda>(ps', ss', hp').
     train_steps rule gss ps' ss' hp')"

subsection \<open>The update rules as the specification writes them\<close>

text \<open>
  The formulas of the specification's table of update rules, for one element \<open>x\<close> of a
  parameter with gradient element \<open>g\<close> and state elements \<open>v\<close>, \<open>s\<close>. They are what the
  models above are compared with.
\<close>

definition spec_adam_v :: "real \<Rightarrow> real \<Rightarrow> real" where
  "spec_adam_v v g = 9 / 10 * v + 1 / 10 * g"

definition spec_adam_s :: "real \<Rightarrow> real \<Rightarrow> real" where
  "spec_adam_s s g = 999 / 1000 * s + 1 / 1000 * g * g"

definition spec_adam_v_hat :: "nat \<Rightarrow> real \<Rightarrow> real" where
  "spec_adam_v_hat t v = v / (1 - (9 / 10) ^ t)"

definition spec_adam_s_hat :: "nat \<Rightarrow> real \<Rightarrow> real" where
  "spec_adam_s_hat t s = s / (1 - (999 / 1000) ^ t)"

definition spec_adam_x :: "real \<Rightarrow> real \<Rightarrow> real \<Rightarrow> real \<Rightarrow> real" where
  "spec_adam_x lr x v_hat s_hat = x - lr * v_hat / (sqrt s_hat + 1 / 1000000)"

definition spec_adam_param :: "real \<Rightarrow> nat \<Rightarrow> param \<Rightarrow> tensor \<times> tensor \<Rightarrow> param" where
  "spec_adam_param lr t p vs =
     p\<lparr>data := map (\<lambda>i. spec_adam_x lr (data p ! i)
                       (spec_adam_v_hat t (spec_adam_v (fst vs ! i) (grad p ! i)))
                       (spec_adam_s_hat t (spec_adam_s (snd vs ! i) (grad p ! i))))
                  [0..<length (data p)]\<rparr>"

definition spec_adam_state :: "param \<Rightarrow> tensor \<times> tensor \<Rightarrow> tensor \<times> tensor" where
  "spec_adam_state p vs =
     (map (\<lambda>i. spec_adam_v (fst vs ! i) (grad p ! i)) [0..<length (grad p)],
      map (\<lambda>i. spec_adam_s (snd vs ! i) (grad p ! i)) [0..<length (grad p)])"

text \<open>Plain gradient descent, \<open>x \<leftarrow> x - \<eta> g\<close>, on every element of a parameter.\<close>

definition spec_gd_param :: "real \<Rightarrow> param \<Rightarrow> param" where
  "spec_gd_param eta p = p\<lparr>data := map (\<lambda>i. data p ! i - eta * grad p ! i) [0..<length (data p)]\<rparr>"

subsection \<open>Shapes\<close>

text \<open>A parameter, its gradient and its state arrays have the same shape.\<close>

definition same_shape :: "param \<Rightarrow> tensor \<Rightarrow> bool" where
  "same_shape p s = (length (grad p) = length (data p) \<and> length s = length (data p))"

definition same_shape2 :: "param \<Rightarrow> tensor \<times> tensor \<Rightarrow> bool" where
  "same_shape2 p vs = (same_shape p (fst vs) \<and> same_shape p (snd vs))"

definition shapes_ok :: "('p \<Rightarrow> 's \<Rightarrow> bool) \<Rightarrow> 'p list \<Rightarrow> 's list \<Rightarrow> bool" where
  "shapes_ok P ps ss = list_all (\<lambda>(p, s). P p s) (zip ps ss)"

definition shapes :: "param list \<Rightarrow> nat list" where
  "shapes ps = map (\<lambda>p. length (data p)) ps"

text \<open>
  The \<open>init_..._states\<close> functions of momentum, Adagrad and RMSProp build one zero array
  of the shape of each parameter (\<open>w\<close>: the number of features, \<open>b\<close>: one element).
\<close>

definition init_states :: "param list \<Rightarrow> tensor list" where
  "init_states ps = map (\<lambda>p. nd_zeros (length (data p))) ps"

text \<open>A gradient provider that returns the constant \<open>c\<close> for every element.\<close>

definition const_grads :: "real \<Rightarrow> param list \<Rightarrow> tensor list" where
  "const_grads c ps = map (\<lambda>p. replicate (length (data p)) c) ps"

subsection \<open>Double-precision arithmetic\<close>

text \<open>
  The real numbers above do not distinguish \<open>(a * b) * c\<close> from \<open>a * (b * c)\<close>; Python's
  floats do. Where that matters the operations of \<open>momentum_2d\<close> and of the body of
  \<open>sgd_momentum\<close> are also given in IEEE 754 double precision, the format of a Python
  float: every operation returns the exact result rounded to 53 significant bits, ties
  to the even neighbour. \<open>f64 x\<close> is that rounding, for \<open>x\<close> in the range of normal
  numbers (overflow and subnormal numbers are not modelled); a decimal literal such as
  \<open>0.2\<close> denotes \<open>f64 (2 / 10)\<close>. The arrays of mxnet hold single-precision numbers by
  default; \<open>sgd_momentum_elem_f64\<close> is the body of \<open>sgd_momentum\<close> on one element in the
  precision of \<open>momentum_2d\<close>, the comparison in which the two can agree at all.
\<close>

definition round_half_even :: "real \<Rightarrow> int" where
  "round_half_even x =
     (let f = \<lfloor>x\<rfloor>; d = x - of_int f
      in if d < 1 / 2 then f else if 1 / 2 < d then f + 1 else if even f then f else f + 1)"

definition pow2 :: "int \<Rightarrow> real" where
  "pow2 e = (if 0 \<le> e then 2 ^ nat e else 1 / 2 ^ nat (- e))"

definition f64 :: "real \<Rightarrow> real" where
  "f64 x =
     (if x = 0 then 0
      else let e = \<lfloor>log 2 \<bar>x\<bar>\<rfloor>
           in of_int (round_half_even (x * pow2 (52 - e))) * pow2 (e - 52))"

definition f64_mul :: "real \<Rightarrow> real \<Rightarrow> real" where
  "f64_mul x y = f64 (x * y)"

definition f64_add :: "real \<Rightarrow> real \<Rightarrow> real" where
  "f64_add x y = f64 (x + y)"

definition f64_sub :: "real \<Rightarrow> real \<Rightarrow> real" where
  "f64_sub x y = f64 (x - y)"

definition momentum_2d_f64 :: "globals \<Rightarrow> real \<Rightarrow> real \<Rightarrow> real \<Rightarrow> real \<Rightarrow> error + (real \<times> real \<times> real \<times> real)" where
  "momentum_2d_f64 G x1 x2 v1 v2 =
     bindE (load_global G ''gamma'') (\<lambda>gamma.
     bindE (load_global G ''eta'') (\<lambda>eta.
     let v1' = f64_add (f64_mul gamma v1) (f64_mul (f64_mul eta (f64 (2 / 10))) x1) in
     bindE (load_global G ''gamma'') (\<lambda>gamma'.
     bindE (load_global G ''eta'') (\<lambda>eta'.
     let v2' = f64_add (f64_mul gamma' v2) (f64_mul (f64_mul eta' 4) x2) in
     Inr (f64_sub x1 v1', f64_sub x2 v2', v1', v2')))))"

definition sgd_momentum_elem_f64 :: "real \<Rightarrow> real \<Rightarrow> real \<Rightarrow> real \<Rightarrow> real \<Rightarrow> real \<times> real" where
  "sgd_momentum_elem_f64 momentum lr x g v =
     (let v' = f64_add (f64_mul momentum v) (f64_mul lr g) in (f64_sub x v', v'))"

section \<open>Basic facts about the model\<close>

lemma bindE_Inr [simp]: "bindE (Inr x) f = f x"
  by (simp add: bindE_def)

lemma bindE_Inl [simp]: "bindE (Inl e) f = Inl e"
  by (simp add: bindE_def)

lemma bindE_eq_Inr: "bindE m f = Inr y \<longleftrightarrow> (\<exists>x. m = Inr x \<and> f x = Inr y)"
  by (cases m) simp_all

lemma getitem_Some [simp]: "hp k = Some x \<Longrightarrow> getitem hp k = Inr x"
  by (simp add: getitem_def)

lemma getitem_eq_Inr: "getitem hp k = Inr x \<longleftrightarrow> hp k = Some x"
  by (simp add: getitem_def split: option.splits)

lemma map2_nth_upt:
  "length xs = length ys \<Longrightarrow> map2 f xs ys = map (\<lambda>i. f (xs ! i) (ys ! i)) [0..<length xs]"
  by (rule nth_equalityI) simp_all

lemma nd_binop_same:
  "length xs = length ys \<Longrightarrow> nd_binop f xs ys = Inr (map (\<lambda>i. f (xs ! i) (ys ! i)) [0..<length xs])"
  by (simp add: nd_binop_def map2_nth_upt)

lemma map_nth_upt: "map f xs = map (\<lambda>i. f (xs ! i)) [0..<length xs]"
  by (rule nth_equalityI) simp_all

lemma for_zip_Inr:
  "list_all (\<lambda>(p, s). body p s = Inr (f p s, g p s)) (zip ps ss) \<Longrightarrow>
   for_zip body ps ss =
     Inr (map2 f ps ss @ drop (length ss) ps, map2 g ps ss @ drop (length ps) ss)"
  by (induction body ps ss rule: for_zip.induct) simp_all

lemma for_zip_rel:
  "for_zip body ps ss = Inr (ps', ss') \<Longrightarrow>
   (\<And>p s p' s'. body p s = Inr (p', s') \<Longrightarrow> R s s') \<Longrightarrow>
   (\<And>s. R s s) \<Longrightarrow> list_all2 R ss ss'"
proof (induction body ps ss arbitrary: ps' ss' rule: for_zip.induct)
  case (1 body p ps s ss)
  from "1.prems"(1) obtain p' s' qs rs
    where b: "body p s = Inr (p', s')" and r: "for_zip body ps ss = Inr (qs, rs)"
      and e: "ss' = s' # rs"
    by (auto simp: bindE_eq_Inr)
  have "R s s'" using b by (rule "1.prems"(2))
  moreover have "list_all2 R ss rs"
    using r "1.prems"(2) "1.prems"(3) by (rule "1.IH")
  ultimately show ?case using e by simp
next
  case "2_1"
  then show ?case by (simp add: list_all2_refl)
next
  case "2_2"
  then show ?case by simp
qed

lemma length_nd_smul [simp]: "length (nd_smul c xs) = length xs"
  by (simp add: nd_smul_def)

lemma length_nd_sadd [simp]: "length (nd_sadd xs c) = length xs"
  by (simp add: nd_sadd_def)

lemma length_nd_sdiv [simp]: "length (nd_sdiv xs c) = length xs"
  by (simp add: nd_sdiv_def)

lemma length_nd_square [simp]: "length (nd_square xs) = length xs"
  by (simp add: nd_square_def)

lemma length_nd_sqrt [simp]: "length (nd_sqrt xs) = length xs"
  by (simp add: nd_sqrt_def)

lemma nth_nd_smul [simp]: "i < length xs \<Longrightarrow> nd_smul c xs ! i = c * xs ! i"
  by (simp add: nd_smul_def)

lemma nth_nd_sadd [simp]: "i < length xs \<Longrightarrow> nd_sadd xs c ! i = xs ! i + c"
  by (simp add: nd_sadd_def)

lemma nth_nd_sdiv [simp]: "i < length xs \<Longrightarrow> nd_sdiv xs c ! i = xs ! i / c"
  by (simp add: nd_sdiv_def)

lemma nth_nd_square [simp]: "i < length xs \<Longrightarrow> nd_square xs ! i = xs ! i * xs ! i"
  by (simp add: nd_square_def)

lemma nth_nd_sqrt [simp]: "i < length xs \<Longrightarrow> nd_sqrt xs ! i = sqrt (xs ! i)"
  by (simp add: nd_sqrt_def)

lemma sgd_momentum_body_closed:
  assumes "hp ''momentum'' = Some m" and "hp ''lr'' = Some lr" and "same_shape p v"
  shows "sgd_momentum_body hp p v =
    Inr (p\<lparr>data := map (\<lambda>i. data p ! i - (m * v ! i + lr * grad p ! i)) [0..<length (data p)]\<rparr>,
         map (\<lambda>i. m * v ! i + lr * grad p ! i) [0..<length (data p)])"
  using assms
  by (simp add: sgd_momentum_body_def same_shape_def nd_add_def nd_sub_def nd_binop_same
      cong: map_cong)

lemma adagrad_body_closed:
  assumes "hp ''lr'' = Some lr" and "same_shape p s"
  shows "adagrad_body hp p s =
    Inr (p\<lparr>data := map (\<lambda>i. data p ! i -
                 lr * grad p ! i / sqrt (s ! i + grad p ! i * grad p ! i + eps)) [0..<length (data p)]\<rparr>,
         map (\<lambda>i. s ! i + grad p ! i * grad p ! i) [0..<length (data p)])"
  using assms
  by (simp add: adagrad_body_def same_shape_def nd_add_def nd_sub_def nd_div_def nd_binop_same
      cong: map_cong)

lemma rmsprop_body_closed:
  assumes "hp ''lr'' = Some lr" and "same_shape p s"
  shows "rmsprop_body gamma hp p s =
    Inr (p\<lparr>data := map (\<lambda>i. data p ! i -
                 lr * grad p ! i / sqrt (ewma gamma (s ! i) (grad p ! i * grad p ! i) + eps)) [0..<length (data p)]\<rparr>,
         map (\<lambda>i. ewma gamma (s ! i) (grad p ! i * grad p ! i)) [0..<length (data p)])"
  using assms
  by (simp add: rmsprop_body_def same_shape_def nd_add_def nd_sub_def nd_div_def nd_binop_same ewma_def
      cong: map_cong)

lemma adam_body_closed:
  assumes "hp ''lr'' = Some lr" and "hp ''t'' = Some t" and "same_shape2 p vs"
  shows "adam_body hp p vs =
    Inr (p\<lparr>data := map (\<lambda>i. data p ! i -
                 lr * ((beta1 * fst vs ! i + (1 - beta1) * grad p ! i) / (1 - beta1 powr t)) /
                 (sqrt ((beta2 * snd vs ! i + (1 - beta2) * (grad p ! i * grad p ! i)) / (1 - beta2 powr t)) + eps))
               [0..<length (data p)]\<rparr>,
         map (\<lambda>i. beta1 * fst vs ! i + (1 - beta1) * grad p ! i) [0..<length (data p)],
         map (\<lambda>i. beta2 * snd vs ! i + (1 - beta2) * (grad p ! i * grad p ! i)) [0..<length (data p)])"
  using assms
  by (cases vs)
     (simp add: adam_body_def same_shape2_def same_shape_def nd_add_def nd_sub_def nd_div_def
      nd_binop_same Let_def cong: map_cong)

lemma shapes_ok_for_zip:
  assumes "shapes_ok P ps ss"
    and "\<And>p s. P p s \<Longrightarrow> body p s = Inr (f p s, g p s)"
  shows "for_zip body ps ss =
     Inr (map2 f ps ss @ drop (length ss) ps, map2 g ps ss @ drop (length ps) ss)"
proof (rule for_zip_Inr)
  show "list_all (\<lambda>(p, s). body p s = Inr (f p s, g p s)) (zip ps ss)"
    using assms by (auto simp: shapes_ok_def list_all_iff)
qed

lemma beta1_powr: "beta1 powr real t = (9 / 10) ^ t"
  by (simp add: beta1_def powr_realpow)

lemma beta2_powr: "beta2 powr real t = (999 / 1000) ^ t"
  by (simp add: beta2_def powr_realpow)

lemma adam_body_spec:
  assumes "hp ''lr'' = Some lr" and "hp ''t'' = Some (real t)" and "same_shape2 p vs"
  shows "adam_body hp p vs = Inr (spec_adam_param lr t p vs, spec_adam_state p vs)"
proof -
  have n: "length (grad p) = length (data p)"
    using assms(3) by (simp add: same_shape2_def same_shape_def)
  have b1: "1 - beta1 = 1 / 10" and b2: "1 - beta2 = 1 / 1000"
    by (simp_all add: beta1_def beta2_def)
  show ?thesis
    unfolding adam_body_closed [OF assms] spec_adam_param_def spec_adam_state_def
      spec_adam_x_def spec_adam_v_hat_def spec_adam_s_hat_def spec_adam_v_def spec_adam_s_def
      beta1_powr beta2_powr b1 b2 n
    by (simp add: beta1_def beta2_def eps_def mult.assoc)
qed

lemma sgd_momentum_body_zero:
  assumes "hp ''momentum'' = Some 0" and "hp ''lr'' = Some eta" and "same_shape p v"
  shows "sgd_momentum_body hp p v = Inr (spec_gd_param eta p, nd_smul eta (grad p))"
proof -
  have "length (grad p) = length (data p)"
    using assms(3) by (simp add: same_shape_def)
  then have "nd_smul eta (grad p) = map (\<lambda>i. eta * grad p ! i) [0..<length (data p)]"
    by (intro nth_equalityI) simp_all
  then show ?thesis
    by (simp add: sgd_momentum_body_closed [OF assms] spec_gd_param_def)
qed

lemma adagrad_body_mono:
  "adagrad_body hp p s = Inr (p', s') \<Longrightarrow> list_all2 (\<le>) s s'"
  by (auto simp: adagrad_body_def bindE_eq_Inr nd_add_def nd_binop_def list_all2_conv_all_nth
      split: if_splits)

lemma adam_body_first_step:
  "adam_body [''lr'' \<mapsto> eta, ''t'' \<mapsto> 1]
      \<lparr>data = xs, grad = replicate (length xs) 1\<rparr> (nd_zeros (length xs), nd_zeros (length xs)) =
   Inr (\<lparr>data = map (\<lambda>x. x - eta * 1 / (1 + eps)) xs, grad = replicate (length xs) 1\<rparr>,
        replicate (length xs) (1 / 10), replicate (length xs) (1 / 1000))"
proof -
  have "adam_body [''lr'' \<mapsto> eta, ''t'' \<mapsto> 1]
      \<lparr>data = xs, grad = replicate (length xs) 1\<rparr> (nd_zeros (length xs), nd_zeros (length xs)) =
    Inr (spec_adam_param eta 1 \<lparr>data = xs, grad = replicate (length xs) 1\<rparr>
           (nd_zeros (length xs), nd_zeros (length xs)),
         spec_adam_state \<lparr>data = xs, grad = replicate (length xs) 1\<rparr>
           (nd_zeros (length xs), nd_zeros (length xs)))"
    by (rule adam_body_spec) (simp_all add: same_shape2_def same_shape_def nd_zeros_def)
  moreover have "spec_adam_param eta 1 \<lparr>data = xs, grad = replicate (length xs) 1\<rparr>
           (nd_zeros (length xs), nd_zeros (length xs)) =
      \<lparr>data = map (\<lambda>x. x - eta * 1 / (1 + eps)) xs, grad = replicate (length xs) 1\<rparr>"
    by (simp add: spec_adam_param_def spec_adam_x_def spec_adam_v_hat_def spec_adam_s_hat_def
        spec_adam_v_def spec_adam_s_def nd_zeros_def eps_def
        map_nth_upt [of "\<lambda>x. x - eta * 1000000 / 1000001" xs] cong: map_cong)
  moreover have "spec_adam_state \<lparr>data = xs, grad = replicate (length xs) 1\<rparr>
           (nd_zeros (length xs), nd_zeros (length xs)) =
      (replicate (length xs) (1 / 10), replicate (length xs) (1 / 1000))"
    by (auto simp: spec_adam_state_def spec_adam_v_def spec_adam_s_def nd_zeros_def
        intro!: nth_equalityI)
  ultimately show ?thesis by simp
qed

lemmas eval_defs = adagrad_body_def rmsprop_body_def sgd_momentum_body_def adam_body_def
  nd_add_def nd_sub_def nd_div_def nd_binop_def
  nd_square_def nd_smul_def nd_sadd_def nd_sdiv_def nd_sqrt_def getitem_def

lemma load_global_Some [simp]: "G k = Some x \<Longrightarrow> load_global G k = Inr x"
  by (simp add: load_global_def)

lemma momentum_2d_closed:
  assumes "G ''eta'' = Some eta" and "G ''gamma'' = Some gamma"
  shows "momentum_2d G x1 x2 v1 v2 =
    Inr (x1 - (gamma * v1 + eta * (2 / 10) * x1), x2 - (gamma * v2 + eta * 4 * x2),
         gamma * v1 + eta * (2 / 10) * x1, gamma * v2 + eta * 4 * x2)"
  using assms by (simp add: momentum_2d_def load_global_def Let_def)

lemma f_2d_gradient:
  "((\<lambda>x. f_2d x x2) has_real_derivative 2 / 10 * x1) (at x1)"
  "((\<lambda>x. f_2d x1 x) has_real_derivative 4 * x2) (at x2)"
  unfolding f_2d_def by (auto intro!: derivative_eq_intros simp: field_simps)


lemma foldl_ewma_const:
  "foldl (ewma gamma) y (replicate t c) = c + (y - c) * gamma ^ t"
proof (induction t arbitrary: y)
  case 0
  show ?case by simp
next
  case (Suc t)
  have "foldl (ewma gamma) y (replicate (Suc t) c) = c + (ewma gamma y c - c) * gamma ^ t"
    by (simp add: Suc.IH)
  also have "ewma gamma y c - c = (y - c) * gamma"
    by (simp add: ewma_def algebra_simps)
  finally show ?case by simp
qed

lemma ewma_run_const: "ewma_run gamma (replicate t c) = c - c * gamma ^ t"
  by (simp add: ewma_run_def foldl_ewma_const)

lemma for_zip_ok:
  assumes "shapes_ok P ps ss" and "\<And>p s. P p s \<Longrightarrow> \<exists>r. body p s = Inr r"
  shows "\<exists>r. for_zip body ps ss = Inr r"
  using assms
proof (induction body ps ss rule: for_zip.induct)
  case (1 body p ps s ss)
  then show ?case
    by (fastforce simp: shapes_ok_def)
qed simp_all

lemma for_zip_set_grads:
  assumes "\<And>p s g. length g = length (data p) \<Longrightarrow> length s = length (data p) \<Longrightarrow>
      \<exists>p'. body (p\<lparr>grad := g\<rparr>) s = Inr (p', upd s g) \<and> length (data p') = length (data p)"
  shows "map length gs = shapes ps \<Longrightarrow> map length ss = shapes ps \<Longrightarrow>
    \<exists>ps'. for_zip body (set_grads gs ps) ss = Inr (ps', map2 upd ss gs) \<and> shapes ps' = shapes ps"
proof (induction ps arbitrary: gs ss)
  case Nil
  then show ?case by (simp add: shapes_def)
next
  case (Cons p ps)
  from Cons.prems obtain g gs' s ss' where gs: "gs = g # gs'" and ss: "ss = s # ss'"
    by (auto simp: shapes_def map_eq_Cons_conv)
  from Cons.prems have l: "length g = length (data p)" "length s = length (data p)"
    and r: "map length gs' = shapes ps" "map length ss' = shapes ps"
    by (simp_all add: gs ss shapes_def)
  obtain p' where p': "body (p\<lparr>grad := g\<rparr>) s = Inr (p', upd s g)"
      "length (data p') = length (data p)"
    using assms [OF l] by blast
  obtain ps' where ps': "for_zip body (set_grads gs' ps) ss' = Inr (ps', map2 upd ss' gs')"
      "shapes ps' = shapes ps"
    using Cons.IH [OF r] by blast
  show ?case
    by (simp add: gs ss p' ps' shapes_def ps'(2) [unfolded shapes_def])
qed

lemma rmsprop_call:
  assumes "hp ''gamma'' = Some gamma" and "hp ''lr'' = Some lr"
    and "map length gs = shapes ps" and "map length ss = shapes ps"
  shows "\<exists>ps'. rmsprop (set_grads gs ps) ss hp =
      Inr (ps', map2 (map2 (\<lambda>si gi. ewma gamma si (gi * gi))) ss gs, hp) \<and>
      shapes ps' = shapes ps"
proof -
  have "\<exists>ps'. for_zip (rmsprop_body gamma hp) (set_grads gs ps) ss =
      Inr (ps', map2 (map2 (\<lambda>si gi. ewma gamma si (gi * gi))) ss gs) \<and> shapes ps' = shapes ps"
    using assms(3,4)
  proof (rule for_zip_set_grads [rotated 1])
    fix p :: param and s g :: tensor
    assume l: "length g = length (data p)" "length s = length (data p)"
    then have "same_shape (p\<lparr>grad := g\<rparr>) s"
      by (simp add: same_shape_def)
    from rmsprop_body_closed [where hp = hp and lr = lr and p = "p\<lparr>grad := g\<rparr>" and s = s
        and gamma = gamma] assms(2) this l
    show "\<exists>p'. rmsprop_body gamma hp (p\<lparr>grad := g\<rparr>) s =
        Inr (p', map2 (\<lambda>si gi. ewma gamma si (gi * gi)) s g) \<and>
        length (data p') = length (data p)"
      by (simp add: map2_nth_upt)
  qed
  then show ?thesis
    using assms(1) by (auto simp: rmsprop_def)
qed

lemma adagrad_call:
  assumes "hp ''lr'' = Some lr"
    and "map length gs = shapes ps" and "map length ss = shapes ps"
  shows "\<exists>ps'. adagrad (set_grads gs ps) ss hp =
      Inr (ps', map2 (map2 (\<lambda>si gi. si + gi * gi)) ss gs, hp) \<and>
      shapes ps' = shapes ps"
proof -
  have "\<exists>ps'. for_zip (adagrad_body hp) (set_grads gs ps) ss =
      Inr (ps', map2 (map2 (\<lambda>si gi. si + gi * gi)) ss gs) \<and> shapes ps' = shapes ps"
    using assms(2,3)
  proof (rule for_zip_set_grads [rotated 1])
    fix p :: param and s g :: tensor
    assume l: "length g = length (data p)" "length s = length (data p)"
    then have "same_shape (p\<lparr>grad := g\<rparr>) s"
      by (simp add: same_shape_def)
    from adagrad_body_closed [where hp = hp and lr = lr and p = "p\<lparr>grad := g\<rparr>" and s = s]
      assms(1) this l
    show "\<exists>p'. adagrad_body hp (p\<lparr>grad := g\<rparr>) s =
        Inr (p', map2 (\<lambda>si gi. si + gi * gi) s g) \<and>
        length (data p') = length (data p)"
      by (simp add: map2_nth_upt)
  qed
  then show ?thesis
    by (auto simp: adagrad_def)
qed

lemma map_length_map2_map2:
  "map length gs = map length ss \<Longrightarrow> map length (map2 (map2 f) ss gs) = map length ss"
proof (induction ss arbitrary: gs)
  case Nil
  then show ?case by simp
next
  case (Cons s ss)
  then obtain g gs' where "gs = g # gs'"
    by (auto simp: map_eq_Cons_conv)
  with Cons show ?case by simp
qed

lemma train_steps_states:
  assumes "\<And>gs ps ss. map length gs = shapes ps \<Longrightarrow> map length ss = shapes ps \<Longrightarrow>
      \<exists>ps'. rule (set_grads gs ps) ss hp = Inr (ps', map2 (map2 f) ss gs, hp) \<and>
            shapes ps' = shapes ps"
  shows "list_all (\<lambda>gs. map length gs = shapes ps) gss \<Longrightarrow> map length ss = shapes ps \<Longrightarrow>
    \<exists>ps'. train_steps rule gss ps ss hp =
            Inr (ps', foldl (\<lambda>ss gs. map2 (map2 f) ss gs) ss gss, hp) \<and>
          shapes ps' = shapes ps"
proof (induction gss arbitrary: ps ss)
  case Nil
  then show ?case by simp
next
  case (Cons gs gss)
  from Cons.prems have g: "map length gs = shapes ps"
    and r: "list_all (\<lambda>gs. map length gs = shapes ps) gss"
    by simp_all
  obtain ps1 where c: "rule (set_grads gs ps) ss hp = Inr (ps1, map2 (map2 f) ss gs, hp)"
    and s1: "shapes ps1 = shapes ps"
    using assms [OF g Cons.prems(2)] by blast
  have "map length (map2 (map2 f) ss gs) = shapes ps1"
    using map_length_map2_map2 [of gs ss f] g Cons.prems(2) s1 by simp
  moreover have "list_all (\<lambda>gs. map length gs = shapes ps1) gss"
    using r s1 by simp
  ultimately obtain ps' where
    "train_steps rule gss ps1 (map2 (map2 f) ss gs) hp =
       Inr (ps', foldl (\<lambda>ss gs. map2 (map2 f) ss gs) (map2 (map2 f) ss gs) gss, hp)"
    and "shapes ps' = shapes ps1"
    using Cons.IH by blast
  then show ?case
    by (simp add: c s1)
qed

lemma list_all_map2:
  assumes "list_all P xs" and "list_all Q ys" and "\<And>x y. P x \<Longrightarrow> Q y \<Longrightarrow> R (f x y)"
  shows "list_all R (map2 f xs ys)"
proof -
  have "R (f x y)" if "(x, y) \<in> set (zip xs ys)" for x y
  proof -
    from that have "x \<in> set xs" and "y \<in> set ys"
      by (auto dest: set_zip_leftD set_zip_rightD)
    then show ?thesis
      using assms by (simp add: list_all_iff)
  qed
  then show ?thesis
    by (auto simp: list_all_iff)
qed

lemma foldl_states_invariant:
  assumes "\<And>si gi. P si \<Longrightarrow> Q gi \<Longrightarrow> P (f si gi)"
  shows "list_all (list_all P) ss \<Longrightarrow> list_all (list_all (list_all Q)) gss \<Longrightarrow>
    list_all (list_all P) (foldl (\<lambda>ss gs. map2 (map2 f) ss gs) ss gss)"
proof (induction gss arbitrary: ss)
  case Nil
  then show ?case by simp
next
  case (Cons gs gss)
  have "list_all (list_all P) (map2 (map2 f) ss gs)"
  proof (rule list_all_map2 [where P = "list_all P" and Q = "list_all Q"])
    show "list_all (list_all P) ss" by (rule Cons.prems(1))
    show "list_all (list_all Q) gs" using Cons.prems(2) by simp
    show "list_all P (map2 f s g)" if "list_all P s" and "list_all Q g" for s g
      using that assms by (rule list_all_map2)
  qed
  then show ?case
    using Cons.IH Cons.prems(2) by simp
qed

lemma ewma_bounded:
  assumes "0 \<le> gamma" and "gamma < 1" and "0 \<le> s \<and> s \<le> G * G" and "\<bar>g\<bar> \<le> G"
  shows "0 \<le> ewma gamma s (g * g) \<and> ewma gamma s (g * g) \<le> G * G"
proof -
  have "\<bar>g\<bar> * \<bar>g\<bar> \<le> G * G"
    using assms(4) by (intro mult_mono) auto
  then have gg: "g * g \<le> G * G"
    by simp
  have a: "0 \<le> gamma * s"
    using assms(1,3) by simp
  have "0 \<le> g * g" and "0 \<le> 1 - gamma"
    using assms(2) by simp_all
  then have "0 \<le> (1 - gamma) * (g * g)"
    by (rule mult_nonneg_nonneg [rotated])
  with a have lo: "0 \<le> gamma * s + (1 - gamma) * (g * g)"
    by (rule add_nonneg_nonneg)
  have "gamma * s \<le> gamma * (G * G)"
    using assms(1,3) by (simp add: mult_left_mono)
  moreover have "(1 - gamma) * (g * g) \<le> (1 - gamma) * (G * G)"
    using assms(2) gg by (simp add: mult_left_mono)
  ultimately have "gamma * s + (1 - gamma) * (g * g) \<le> gamma * (G * G) + (1 - gamma) * (G * G)"
    by (rule add_mono)
  also have "gamma * (G * G) + (1 - gamma) * (G * G) = G * G"
    by (simp add: algebra_simps)
  finally show ?thesis
    using lo by (simp add: ewma_def)
qed

lemma map2_map2_const:
  "map2 (map2 f) (map (\<lambda>p. replicate (l p) a) ps) (map (\<lambda>p. replicate (l p) c) ps) =
   map (\<lambda>p. replicate (l p) (f a c)) ps"
  by (induction ps) simp_all

lemma foldl_adagrad_const:
  "foldl (\<lambda>ss gs. map2 (map2 (\<lambda>si gi. si + gi * gi)) ss gs)
     (map (\<lambda>p. replicate (l p) a) ps) (replicate n (map (\<lambda>p. replicate (l p) c) ps)) =
   map (\<lambda>p. replicate (l p) (a + real n * (c * c))) ps"
proof (induction n arbitrary: a)
  case 0
  show ?case by simp
next
  case (Suc n)
  have "a + c * c + real n * (c * c) = a + real (Suc n) * (c * c)"
    by (simp add: algebra_simps)
  then show ?case
    by (simp add: map2_map2_const Suc.IH)
qed

lemma list_all_take: "list_all P xs \<Longrightarrow> list_all P (take k xs)"
  by (auto simp: list_all_iff dest: in_set_takeD)

lemma sgd_momentum_returns:
  assumes "hp ''momentum'' = Some m" and "hp ''lr'' = Some lr"
    and "shapes_ok same_shape params states"
  shows "\<exists>r. sgd_momentum params states hp = Inr r"
proof -
  have "\<exists>r. for_zip (sgd_momentum_body hp) params states = Inr r"
    using assms(3)
    by (rule for_zip_ok) (simp add: sgd_momentum_body_closed [where m = m and lr = lr] assms(1,2))
  then show ?thesis
    by (auto simp: sgd_momentum_def)
qed

lemma adagrad_returns:
  assumes "hp ''lr'' = Some lr" and "shapes_ok same_shape params states"
  shows "\<exists>r. adagrad params states hp = Inr r"
proof -
  have "\<exists>r. for_zip (adagrad_body hp) params states = Inr r"
    using assms(2)
    by (rule for_zip_ok) (simp add: adagrad_body_closed [where lr = lr] assms(1))
  then show ?thesis
    by (auto simp: adagrad_def)
qed

lemma rmsprop_returns:
  assumes "hp ''gamma'' = Some g" and "hp ''lr'' = Some lr"
    and "shapes_ok same_shape params states"
  shows "\<exists>r. rmsprop params states hp = Inr r"
proof -
  have "\<exists>r. for_zip (rmsprop_body g hp) params states = Inr r"
    using assms(3)
    by (rule for_zip_ok) (simp add: rmsprop_body_closed [where lr = lr] assms(2))
  then show ?thesis
    using assms(1) by (auto simp: rmsprop_def)
qed

lemma adam_returns:
  assumes "hp ''lr'' = Some lr" and "hp ''t'' = Some t"
    and "shapes_ok same_shape2 params states"
  shows "\<exists>r. adam params states hp = Inr r"
proof -
  have "\<exists>r. for_zip (adam_body hp) params states = Inr r"
    using assms(3)
    by (rule for_zip_ok) (simp add: adam_body_closed [where lr = lr and t = t] assms(1,2))
  then show ?thesis
    using assms(2) by (auto simp: adam_def)
qed



lemma pow2_powr: "pow2 e = 2 powr of_int e"
proof (cases "0 \<le> e")
  case True
  then have "2 powr of_int e = (2::real) powr real (nat e)"
    by simp
  also have "\<dots> = 2 ^ nat e"
    by (rule powr_realpow) simp
  finally show ?thesis
    using True by (simp add: pow2_def)
next
  case False
  then have "2 powr of_int e = (2::real) powr - real (nat (- e))"
    by simp
  also have "\<dots> = 1 / 2 powr real (nat (- e))"
    by (simp add: powr_minus divide_inverse)
  also have "2 powr real (nat (- e)) = (2::real) ^ nat (- e)"
    by (rule powr_realpow) simp
  finally show ?thesis
    using False by (simp add: pow2_def)
qed

lemma f64_eqI:
  assumes "pow2 e \<le> \<bar>x\<bar>" and "\<bar>x\<bar> < pow2 (e + 1)"
    and "round_half_even (x * pow2 (52 - e)) = m"
  shows "f64 x = of_int m * pow2 (e - 52)"
proof -
  have "0 < pow2 e"
    by (simp add: pow2_powr)
  then have p: "0 < \<bar>x\<bar>"
    using assms(1) by linarith
  then have "\<lfloor>log 2 \<bar>x\<bar>\<rfloor> = e"
    using assms(1,2) by (simp add: floor_log_eq_powr_iff pow2_powr)
  moreover have "x \<noteq> 0" using p by simp
  ultimately show ?thesis
    using assms(3) by (simp add: f64_def)
qed

lemma f64_zero: "f64 0 = 0"
  by (simp add: f64_def)

lemma f64_value_1: "f64 (2 / 5) = 3602879701896397 / 9007199254740992"
  by (rule f64_eqI [where e = "-2" and m = 7205759403792794, THEN trans])
     (simp_all add: round_half_even_def pow2_def)

lemma f64_value_2: "f64 (1 / 5) = 3602879701896397 / 18014398509481984"
  by (rule f64_eqI [where e = "-3" and m = 7205759403792794, THEN trans])
     (simp_all add: round_half_even_def pow2_def)

lemma f64_value_3: "f64 (12980742146337070512478121581609 / 162259276829213363391578010288128) = 1441151880758559 / 18014398509481984"
  by (rule f64_eqI [where e = "-4" and m = 5764607523034236, THEN trans])
     (simp_all add: round_half_even_def pow2_def)

lemma f64_value_4: "f64 (- (7205759403792795 / 18014398509481984)) = - (7205759403792795 / 18014398509481984)"
  by (rule f64_eqI [where e = "-2" and m = "-7205759403792795", THEN trans])
     (simp_all add: round_half_even_def pow2_def)

lemma f64_value_5: "f64 (3602879701896397 / 2251799813685248) = 3602879701896397 / 2251799813685248"
  by (rule f64_eqI [where e = 0 and m = 7205759403792794, THEN trans])
     (simp_all add: round_half_even_def pow2_def)

lemma f64_value_6: "f64 (- (3602879701896397 / 1125899906842624)) = - (3602879701896397 / 1125899906842624)"
  by (rule f64_eqI [where e = 1 and m = "-7205759403792794", THEN trans])
     (simp_all add: round_half_even_def pow2_def)

lemma f64_value_7: "f64 (- (82866233143617125 / 18014398509481984)) = - (2589569785738035 / 562949953421312)"
  by (rule f64_eqI [where e = 2 and m = "-5179139571476070", THEN trans])
     (simp_all add: round_half_even_def pow2_def)

lemma f64_value_8: "f64 (1351079888211149 / 1125899906842624) = 1351079888211149 / 1125899906842624"
  by (rule f64_eqI [where e = 0 and m = 5404319552844596, THEN trans])
     (simp_all add: round_half_even_def pow2_def)

lemma f64_value_9: "f64 (- (18014398509481985 / 18014398509481984)) = - 1"
  by (rule f64_eqI [where e = 0 and m = "-4503599627370496", THEN trans])
     (simp_all add: round_half_even_def pow2_def)

lemma f64_value_10: "f64 (- 8) = - 8"
  by (rule f64_eqI [where e = 3 and m = "-4503599627370496", THEN trans])
     (simp_all add: round_half_even_def pow2_def)

lemma f64_value_11: "f64 (- (3602879701896397 / 9007199254740992)) = - (3602879701896397 / 9007199254740992)"
  by (rule f64_eqI [where e = "-2" and m = "-7205759403792794", THEN trans])
     (simp_all add: round_half_even_def pow2_def)

lemma f64_value_12: "f64 (- (41433116571808563 / 9007199254740992)) = - (2589569785738035 / 562949953421312)"
  by (rule f64_eqI [where e = 2 and m = "-5179139571476070", THEN trans])
     (simp_all add: round_half_even_def pow2_def)

lemmas f64_values = f64_zero f64_value_1 f64_value_2 f64_value_3 f64_value_4 f64_value_5
  f64_value_6 f64_value_7 f64_value_8 f64_value_9 f64_value_10 f64_value_11 f64_value_12


section \<open>The Adam update\<close>

text \<open>
  Claim C1. A call of \<open>adam\<close> with learning rate \<open>lr\<close> and time step \<open>t \<ge> 1\<close> in the
  hyperparameters updates every parameter-state pair by
  \<open>v \<leftarrow> 0.9 v + 0.1 g\<close>, \<open>s \<leftarrow> 0.999 s + 0.001 g g\<close>, \<open>v_hat = v / (1 - 0.9\<^sup>t)\<close>,
  \<open>s_hat = s / (1 - 0.999\<^sup>t)\<close>, \<open>x \<leftarrow> x - lr v_hat / (sqrt s_hat + 10\<^sup>-\<^sup>6)\<close>, with
  the same \<open>t\<close> for all parameters, and increments \<open>t\<close> by one, once, after the loop.
  Pairs beyond the shorter of the two lists are not touched.
\<close>

theorem adam_update_rule:
  assumes "hp ''lr'' = Some lr" and "hp ''t'' = Some (real t)" and "1 \<le> t"
    and "shapes_ok same_shape2 params states"
  shows "adam params states hp =
     Inr (map2 (spec_adam_param lr t) params states @ drop (length states) params,
          map2 spec_adam_state params states @ drop (length params) states,
          hp(''t'' \<mapsto> real t + 1))"
proof -
  have "for_zip (adam_body hp) params states =
     Inr (map2 (spec_adam_param lr t) params states @ drop (length states) params,
          map2 spec_adam_state params states @ drop (length params) states)"
    using assms(4) by (rule shapes_ok_for_zip) (rule adam_body_spec [OF assms(1,2)])
  then show ?thesis
    using assms(2) by (simp add: adam_def)
qed

theorem adam_update_rule_witness:
  "[''lr'' \<mapsto> 1 / 100, ''t'' \<mapsto> 1] ''lr'' = Some (1 / 100) \<and>
   [''lr'' \<mapsto> 1 / 100, ''t'' \<mapsto> 1::real] ''t'' = Some (real 1) \<and> (1::nat) \<le> 1 \<and>
   shapes_ok same_shape2
     [\<lparr>data = [1], grad = [1]\<rparr>, \<lparr>data = [2, 3], grad = [1, 1]\<rparr>]
     [([0], [0]), ([0, 0], [0, 0])] \<and>
   adam [\<lparr>data = [1], grad = [1]\<rparr>, \<lparr>data = [2, 3], grad = [1, 1]\<rparr>]
        [([0], [0]), ([0, 0], [0, 0])] [''lr'' \<mapsto> 1 / 100, ''t'' \<mapsto> 1] =
     Inr ([\<lparr>data = [1 - 10000 / 1000001], grad = [1]\<rparr>,
           \<lparr>data = [2 - 10000 / 1000001, 3 - 10000 / 1000001], grad = [1, 1]\<rparr>],
          [([1 / 10], [1 / 1000]), ([1 / 10, 1 / 10], [1 / 1000, 1 / 1000])],
          [''lr'' \<mapsto> 1 / 100, ''t'' \<mapsto> 2])"
  using adam_update_rule [of "[''lr'' \<mapsto> 1 / 100, ''t'' \<mapsto> 1]" "1 / 100" 1
      "[\<lparr>data = [1], grad = [1]\<rparr>, \<lparr>data = [2, 3], grad = [1, 1]\<rparr>]"
      "[([0], [0]), ([0, 0], [0, 0])]"]
  by (simp add: shapes_ok_def same_shape2_def same_shape_def spec_adam_param_def
      spec_adam_state_def spec_adam_x_def spec_adam_v_hat_def spec_adam_s_hat_def
      spec_adam_v_def spec_adam_s_def)

section \<open>The Adagrad accumulator\<close>

text \<open>
  Claim C4. After each call of \<open>adagrad\<close> every element of every accumulator \<open>s\<close> is
  greater than or equal to its value before the call, whatever the gradients are.
\<close>

theorem adagrad_accumulator_nondecreasing:
  "adagrad params states hp = Inr (params', states', hp') \<Longrightarrow>
   list_all2 (list_all2 (\<le>)) states states'"
proof -
  assume "adagrad params states hp = Inr (params', states', hp')"
  then have "for_zip (adagrad_body hp) params states = Inr (params', states')"
    by (auto simp: adagrad_def bindE_eq_Inr)
  then show ?thesis
    by (rule for_zip_rel) (auto dest: adagrad_body_mono simp: list_all2_refl)
qed

theorem adagrad_accumulator_nondecreasing_witness:
  "adagrad [\<lparr>data = [1, 2], grad = [2, -3]\<rparr>] [[0, 5]] [''lr'' \<mapsto> 1 / 10] =
     Inr ([\<lparr>data = [1 - (1 / 10 * 2) / sqrt (4 + eps), 2 - (1 / 10 * (-3)) / sqrt (14 + eps)],
            grad = [2, -3]\<rparr>], [[4, 14]], [''lr'' \<mapsto> 1 / 10]) \<and>
   list_all2 (list_all2 (\<le>)) [[0, 5]] [[4, 14 :: real]]"
proof -
  have r: "adagrad [\<lparr>data = [1, 2], grad = [2, -3]\<rparr>] [[0, 5]] [''lr'' \<mapsto> 1 / 10] =
     Inr ([\<lparr>data = [1 - (1 / 10 * 2) / sqrt (4 + eps), 2 - (1 / 10 * (-3)) / sqrt (14 + eps)],
            grad = [2, -3]\<rparr>], [[4, 14]], [''lr'' \<mapsto> 1 / 10])"
    by (simp add: adagrad_def adagrad_body_def nd_add_def nd_sub_def nd_div_def nd_binop_def
        nd_square_def nd_smul_def nd_sadd_def nd_sqrt_def getitem_def)
  show ?thesis
    using r adagrad_accumulator_nondecreasing [OF r] by simp
qed

section \<open>Momentum without momentum\<close>

text \<open>
  Claim C6. With the momentum hyperparameter equal to zero, a call of \<open>sgd_momentum\<close>
  is the plain gradient-descent update \<open>x \<leftarrow> x - \<eta> g\<close> of every parameter element
  and sets the velocity to \<open>\<eta> g\<close>; the result does not depend on the values the
  velocity held before.
\<close>

theorem momentum_zero_is_gradient_descent:
  assumes "hp ''momentum'' = Some 0" and "hp ''lr'' = Some eta"
    and "shapes_ok same_shape params states"
  shows "sgd_momentum params states hp =
     Inr (map2 (\<lambda>p v. spec_gd_param eta p) params states @ drop (length states) params,
          map2 (\<lambda>p v. nd_smul eta (grad p)) params states @ drop (length params) states,
          hp)"
proof -
  have "for_zip (sgd_momentum_body hp) params states =
     Inr (map2 (\<lambda>p v. spec_gd_param eta p) params states @ drop (length states) params,
          map2 (\<lambda>p v. nd_smul eta (grad p)) params states @ drop (length params) states)"
    using assms(3) by (rule shapes_ok_for_zip) (rule sgd_momentum_body_zero [OF assms(1,2)])
  then show ?thesis
    by (simp add: sgd_momentum_def)
qed

theorem momentum_zero_is_gradient_descent_witness:
  "[''momentum'' \<mapsto> 0, ''lr'' \<mapsto> 1 / 10] ''momentum'' = Some (0::real) \<and>
   [''momentum'' \<mapsto> 0, ''lr'' \<mapsto> 1 / 10] ''lr'' = Some (1 / 10 :: real) \<and>
   shapes_ok same_shape [\<lparr>data = [1, 2], grad = [3, 4]\<rparr>] [[7, -8]] \<and>
   sgd_momentum [\<lparr>data = [1, 2], grad = [3, 4]\<rparr>] [[7, -8]]
       [''momentum'' \<mapsto> 0, ''lr'' \<mapsto> 1 / 10] =
     Inr ([\<lparr>data = [7 / 10, 8 / 5], grad = [3, 4]\<rparr>], [[3 / 10, 2 / 5]],
          [''momentum'' \<mapsto> 0, ''lr'' \<mapsto> 1 / 10])"
  using momentum_zero_is_gradient_descent [of "[''momentum'' \<mapsto> 0, ''lr'' \<mapsto> 1 / 10]" "1 / 10"
      "[\<lparr>data = [1, 2], grad = [3, 4]\<rparr>]" "[[7, -8]]"]
  by (simp add: shapes_ok_def same_shape_def spec_gd_param_def nd_smul_def)

section \<open>The first step of Adam\<close>

text \<open>
  Claim C7. One call of \<open>adam\<close> at \<open>t = 1\<close> from the zero state, with every gradient
  element equal to \<open>1\<close>, leaves \<open>v = 0.1\<close> and \<open>s = 0.001\<close>; the bias-corrected values
  \<open>0.1 / (1 - 0.9)\<close> and \<open>0.001 / (1 - 0.999)\<close> are \<open>1\<close>; every parameter element moves
  by \<open>\<eta> \<cdot> 1 / (1 + eps)\<close>, which differs from \<open>\<eta>\<close> by at most \<open>|\<eta>| eps\<close>.
\<close>

theorem adam_first_step:
  "adam [\<lparr>data = xs, grad = replicate (length xs) 1\<rparr>]
        [(nd_zeros (length xs), nd_zeros (length xs))] [''lr'' \<mapsto> eta, ''t'' \<mapsto> 1] =
     Inr ([\<lparr>data = map (\<lambda>x. x - eta * 1 / (1 + eps)) xs, grad = replicate (length xs) 1\<rparr>],
          [(replicate (length xs) (1 / 10), replicate (length xs) (1 / 1000))],
          [''lr'' \<mapsto> eta, ''t'' \<mapsto> 2]) \<and>
   nd_sdiv (replicate (length xs) (1 / 10)) (1 - beta1 powr 1) = replicate (length xs) 1 \<and>
   nd_sdiv (replicate (length xs) (1 / 1000)) (1 - beta2 powr 1) = replicate (length xs) 1 \<and>
   \<bar>eta * 1 / (1 + eps) - eta\<bar> \<le> \<bar>eta\<bar> * eps"
proof (intro conjI)
  show "adam [\<lparr>data = xs, grad = replicate (length xs) 1\<rparr>]
        [(nd_zeros (length xs), nd_zeros (length xs))] [''lr'' \<mapsto> eta, ''t'' \<mapsto> 1] =
     Inr ([\<lparr>data = map (\<lambda>x. x - eta * 1 / (1 + eps)) xs, grad = replicate (length xs) 1\<rparr>],
          [(replicate (length xs) (1 / 10), replicate (length xs) (1 / 1000))],
          [''lr'' \<mapsto> eta, ''t'' \<mapsto> 2])"
    by (simp add: adam_def adam_body_first_step getitem_def)
  show "nd_sdiv (replicate (length xs) (1 / 10)) (1 - beta1 powr 1) = replicate (length xs) 1"
    by (simp add: nd_sdiv_def beta1_def)
  show "nd_sdiv (replicate (length xs) (1 / 1000)) (1 - beta2 powr 1) = replicate (length xs) 1"
    by (simp add: nd_sdiv_def beta2_def)
  have "eta * 1 / (1 + eps) - eta = - (eta * eps / (1 + eps))"
    by (simp add: eps_def field_simps)
  moreover have "\<bar>eta * eps / (1 + eps)\<bar> \<le> \<bar>eta\<bar> * eps"
    by (simp add: eps_def abs_mult)
  ultimately show "\<bar>eta * 1 / (1 + eps) - eta\<bar> \<le> \<bar>eta\<bar> * eps"
    by simp
qed

section \<open>What the update rules do to the hyperparameters\<close>

text \<open>
  Claim C10. \<open>sgd_momentum\<close>, \<open>adagrad\<close> and \<open>rmsprop\<close> return the hyperparameter
  dictionary as they received it. \<open>adam\<close> returns it with the entry \<open>t\<close> increased by
  one and every other entry as it was.
\<close>

theorem hyperparams_frame:
  "(sgd_momentum ps ss hp = Inr (ps', ss', hp') \<longrightarrow> hp' = hp) \<and>
   (adagrad ps ss hp = Inr (ps', ss', hp') \<longrightarrow> hp' = hp) \<and>
   (rmsprop ps ss hp = Inr (ps', ss', hp') \<longrightarrow> hp' = hp) \<and>
   (adam ps vs hp = Inr (ps', vs', hp') \<longrightarrow>
      (\<exists>t. hp ''t'' = Some t \<and> hp' = hp(''t'' \<mapsto> t + 1)))"
  by (auto simp: sgd_momentum_def adagrad_def rmsprop_def adam_def bindE_eq_Inr getitem_eq_Inr)

theorem hyperparams_frame_witness:
  "sgd_momentum [\<lparr>data = [1], grad = [2]\<rparr>] [[0]] [''lr'' \<mapsto> 1 / 10, ''momentum'' \<mapsto> 1 / 2] =
     Inr ([\<lparr>data = [4 / 5], grad = [2]\<rparr>], [[1 / 5]],
          [''lr'' \<mapsto> 1 / 10, ''momentum'' \<mapsto> 1 / 2]) \<and>
   adagrad [\<lparr>data = [1], grad = [2]\<rparr>] [[0]] [''lr'' \<mapsto> 1 / 10] =
     Inr ([\<lparr>data = [1 - (1 / 10 * 2) / sqrt (4 + eps)], grad = [2]\<rparr>], [[4]],
          [''lr'' \<mapsto> 1 / 10]) \<and>
   rmsprop [\<lparr>data = [1], grad = [2]\<rparr>] [[0]] [''lr'' \<mapsto> 1 / 10, ''gamma'' \<mapsto> 9 / 10] =
     Inr ([\<lparr>data = [1 - (1 / 10 * 2) / sqrt (2 / 5 + eps)], grad = [2]\<rparr>], [[2 / 5]],
          [''lr'' \<mapsto> 1 / 10, ''gamma'' \<mapsto> 9 / 10]) \<and>
   adam [\<lparr>data = [1], grad = [1]\<rparr>] [([0], [0])] [''lr'' \<mapsto> 1 / 100, ''t'' \<mapsto> 1] =
     Inr ([\<lparr>data = [1 - 10000 / 1000001], grad = [1]\<rparr>], [([1 / 10], [1 / 1000])],
          [''lr'' \<mapsto> 1 / 100, ''t'' \<mapsto> 2]) \<and>
   (\<exists>t. [''lr'' \<mapsto> 1 / 100, ''t'' \<mapsto> 1::real] ''t'' = Some t \<and>
        [''lr'' \<mapsto> 1 / 100, ''t'' \<mapsto> 2] = [''lr'' \<mapsto> 1 / 100, ''t'' \<mapsto> 1](''t'' \<mapsto> t + 1))"
proof -
  have m: "sgd_momentum [\<lparr>data = [1], grad = [2]\<rparr>] [[0]] [''lr'' \<mapsto> 1 / 10, ''momentum'' \<mapsto> 1 / 2] =
     Inr ([\<lparr>data = [4 / 5], grad = [2]\<rparr>], [[1 / 5]],
          [''lr'' \<mapsto> 1 / 10, ''momentum'' \<mapsto> 1 / 2])"
    by (simp add: sgd_momentum_def eval_defs)
  have a: "adagrad [\<lparr>data = [1], grad = [2]\<rparr>] [[0]] [''lr'' \<mapsto> 1 / 10] =
     Inr ([\<lparr>data = [1 - (1 / 10 * 2) / sqrt (4 + eps)], grad = [2]\<rparr>], [[4]],
          [''lr'' \<mapsto> 1 / 10])"
    by (simp add: adagrad_def eval_defs)
  have r: "rmsprop [\<lparr>data = [1], grad = [2]\<rparr>] [[0]] [''lr'' \<mapsto> 1 / 10, ''gamma'' \<mapsto> 9 / 10] =
     Inr ([\<lparr>data = [1 - (1 / 10 * 2) / sqrt (2 / 5 + eps)], grad = [2]\<rparr>], [[2 / 5]],
          [''lr'' \<mapsto> 1 / 10, ''gamma'' \<mapsto> 9 / 10])"
    by (simp add: rmsprop_def eval_defs)
  have d: "adam [\<lparr>data = [1], grad = [1]\<rparr>] [([0], [0])] [''lr'' \<mapsto> 1 / 100, ''t'' \<mapsto> 1] =
     Inr ([\<lparr>data = [1 - 10000 / 1000001], grad = [1]\<rparr>], [([1 / 10], [1 / 1000])],
          [''lr'' \<mapsto> 1 / 100, ''t'' \<mapsto> 2])"
    by (simp add: adam_def eval_defs beta1_def beta2_def eps_def)
  show ?thesis
    using m a r d
      hyperparams_frame [of "[\<lparr>data = [1], grad = [2]\<rparr>]" "[[0]]"
        "[''lr'' \<mapsto> 1 / 10, ''momentum'' \<mapsto> 1 / 2]" "[\<lparr>data = [4 / 5], grad = [2]\<rparr>]"
        "[[1 / 5]]" "[''lr'' \<mapsto> 1 / 10, ''momentum'' \<mapsto> 1 / 2]"]
      hyperparams_frame [of "[\<lparr>data = [1], grad = [2]\<rparr>]" "[[0]]"
        "[''lr'' \<mapsto> 1 / 10]" "[\<lparr>data = [1 - (1 / 10 * 2) / sqrt (4 + eps)], grad = [2]\<rparr>]"
        "[[4]]" "[''lr'' \<mapsto> 1 / 10]"]
      hyperparams_frame [of "[\<lparr>data = [1], grad = [2]\<rparr>]" "[[0]]"
        "[''lr'' \<mapsto> 1 / 10, ''gamma'' \<mapsto> 9 / 10]"
        "[\<lparr>data = [1 - (1 / 10 * 2) / sqrt (2 / 5 + eps)], grad = [2]\<rparr>]"
        "[[2 / 5]]" "[''lr'' \<mapsto> 1 / 10, ''gamma'' \<mapsto> 9 / 10]"]
      hyperparams_frame [of "[\<lparr>data = [1], grad = [1]\<rparr>]" "[[0]]"
        "[''lr'' \<mapsto> 1 / 100, ''t'' \<mapsto> 1]" "[\<lparr>data = [1 - 10000 / 1000001], grad = [1]\<rparr>]"
        "[[0]]" "[''lr'' \<mapsto> 1 / 100, ''t'' \<mapsto> 2]" "[([0], [0])]" "[([1 / 10], [1 / 1000])]"]
    by simp
qed


section \<open>The toy momentum step and the general rule\<close>

text \<open>
  Claim C9, as stated: \<open>momentum_2d\<close> returns exactly the values of the general momentum
  rule of \<open>sgd_momentum\<close> applied componentwise with the gradient \<open>(0.2 x1, 4 x2)\<close>. In
  the arithmetic of the code it does not: \<open>momentum_2d\<close> computes \<open>(eta * 0.2) * x1\<close>, the
  general rule \<open>eta * (0.2 * x1)\<close>, and in double precision the two round differently. At
  the notebook's start point \<open>(-5, -2)\<close> with zero velocity, \<open>eta = 0.4\<close> and
  \<open>gamma = 0.5\<close>, \<open>momentum_2d\<close> returns the velocity \<open>-7205759403792795 / 2\<^sup>5\<^sup>4\<close>
  (Python prints \<open>-0.4000000000000001\<close>) and the general rule
  \<open>-7205759403792794 / 2\<^sup>5\<^sup>4\<close> (\<open>-0.4\<close>).
\<close>

theorem momentum_2d_not_bitwise_counterexample:
  "momentum_2d_f64 [''eta'' \<mapsto> f64 (4 / 10), ''gamma'' \<mapsto> 1 / 2] (-5) (-2) 0 0 =
     Inr (- 2589569785738035 / 2 ^ 49, 1351079888211149 / 2 ^ 50,
          - 7205759403792795 / 2 ^ 54, - 3602879701896397 / 2 ^ 50) \<and>
   sgd_momentum_elem_f64 (1 / 2) (f64 (4 / 10)) (-5) (f64_mul (f64 (2 / 10)) (-5)) 0 =
     (- 2589569785738035 / 2 ^ 49, - 7205759403792794 / 2 ^ 54) \<and>
   sgd_momentum_elem_f64 (1 / 2) (f64 (4 / 10)) (-2) (f64_mul 4 (-2)) 0 =
     (1351079888211149 / 2 ^ 50, - 3602879701896397 / 2 ^ 50) \<and>
   (- 7205759403792795 / 2 ^ 54 :: real) \<noteq> - 7205759403792794 / 2 ^ 54"
  by (simp add: momentum_2d_f64_def sgd_momentum_elem_f64_def load_global_def Let_def
      f64_mul_def f64_add_def f64_sub_def f64_values)

text \<open>
  Claim C9, amended. As functions of real numbers, that is up to floating-point rounding,
  \<open>momentum_2d\<close> returns for all \<open>x1\<close>, \<open>x2\<close>, \<open>v1\<close>, \<open>v2\<close>, \<open>eta\<close> and \<open>gamma\<close> the
  values that \<open>sgd_momentum\<close> computes, element by element, for the parameter \<open>(x1, x2)\<close>
  with velocity \<open>(v1, v2)\<close>, learning rate \<open>eta\<close>, momentum \<open>gamma\<close> and the gradient
  \<open>(0.2 x1, 4 x2)\<close>, which is the gradient of \<open>f_2d\<close>.
\<close>

theorem momentum_2d_refines_sgd_momentum:
  assumes "G ''eta'' = Some eta" and "G ''gamma'' = Some gamma"
  shows "\<exists>y1 y2 w1 w2.
     momentum_2d G x1 x2 v1 v2 = Inr (y1, y2, w1, w2) \<and>
     sgd_momentum [\<lparr>data = [x1, x2], grad = [2 / 10 * x1, 4 * x2]\<rparr>] [[v1, v2]]
         [''lr'' \<mapsto> eta, ''momentum'' \<mapsto> gamma] =
       Inr ([\<lparr>data = [y1, y2], grad = [2 / 10 * x1, 4 * x2]\<rparr>], [[w1, w2]],
            [''lr'' \<mapsto> eta, ''momentum'' \<mapsto> gamma]) \<and>
     ((\<lambda>x. f_2d x x2) has_real_derivative 2 / 10 * x1) (at x1) \<and>
     ((\<lambda>x. f_2d x1 x) has_real_derivative 4 * x2) (at x2)"
proof -
  let ?w1 = "gamma * v1 + eta * (2 / 10) * x1" and ?w2 = "gamma * v2 + eta * 4 * x2"
  have "momentum_2d G x1 x2 v1 v2 = Inr (x1 - ?w1, x2 - ?w2, ?w1, ?w2)"
    by (rule momentum_2d_closed [OF assms])
  moreover have "sgd_momentum [\<lparr>data = [x1, x2], grad = [2 / 10 * x1, 4 * x2]\<rparr>] [[v1, v2]]
         [''lr'' \<mapsto> eta, ''momentum'' \<mapsto> gamma] =
       Inr ([\<lparr>data = [x1 - ?w1, x2 - ?w2], grad = [2 / 10 * x1, 4 * x2]\<rparr>], [[?w1, ?w2]],
            [''lr'' \<mapsto> eta, ''momentum'' \<mapsto> gamma])"
    by (simp add: sgd_momentum_def eval_defs)
  moreover note f_2d_gradient [of x2 x1] f_2d_gradient(2) [of x1 x2]
  ultimately show ?thesis by blast
qed

theorem momentum_2d_refines_sgd_momentum_witness:
  "[''eta'' \<mapsto> 2 / 5, ''gamma'' \<mapsto> 1 / 2] ''eta'' = Some (2 / 5 :: real) \<and>
   [''eta'' \<mapsto> 2 / 5, ''gamma'' \<mapsto> 1 / 2] ''gamma'' = Some (1 / 2 :: real) \<and>
   momentum_2d [''eta'' \<mapsto> 2 / 5, ''gamma'' \<mapsto> 1 / 2] (-5) (-2) 0 0 =
     Inr (-23 / 5, 6 / 5, -2 / 5, -16 / 5) \<and>
   sgd_momentum [\<lparr>data = [-5, -2], grad = [2 / 10 * (-5), 4 * (-2)]\<rparr>] [[0, 0]]
       [''lr'' \<mapsto> 2 / 5, ''momentum'' \<mapsto> 1 / 2] =
     Inr ([\<lparr>data = [-23 / 5, 6 / 5], grad = [2 / 10 * (-5), 4 * (-2)]\<rparr>], [[-2 / 5, -16 / 5]],
          [''lr'' \<mapsto> 2 / 5, ''momentum'' \<mapsto> 1 / 2])"
  using momentum_2d_refines_sgd_momentum [of "[''eta'' \<mapsto> 2 / 5, ''gamma'' \<mapsto> 1 / 2]"
      "2 / 5" "1 / 2" "-5" "-2" 0 0]
  by (simp add: momentum_2d_def load_global_def Let_def sgd_momentum_def eval_defs)

section \<open>The toy trajectory\<close>



section \<open>Convergence of the moving average\<close>

text \<open>
  Claim C2, as stated: for \<open>\<gamma> = 0.9\<close> and the constant input \<open>1\<close>, the moving average is
  within \<open>10\<^sup>-\<^sup>3\<close> of \<open>1\<close> after 20 steps. It is not: the distance after \<open>t\<close> steps is
  \<open>0.9\<^sup>t\<close>, about \<open>0.12\<close> for \<open>t = 20\<close>.
\<close>

theorem ewma_gap_counterexample:
  "\<not> \<bar>ewma_run (9 / 10) (replicate 20 1) - 1\<bar> < 1 / 1000"
  by (simp add: ewma_run_const power_divide)

text \<open>
  Claim C2, amended. For \<open>0 < \<gamma> < 1\<close> and a constant input \<open>c\<close> the moving average from
  \<open>y\<^sub>0 = 0\<close> converges to \<open>c\<close>. For \<open>\<gamma> = 0.9\<close> and \<open>c = 1\<close> the distance after 20 steps is
  \<open>0.9\<^sup>2\<^sup>0\<close>; it is still at least \<open>10\<^sup>-\<^sup>3\<close> after 65 steps and below \<open>10\<^sup>-\<^sup>3\<close> after
  66 steps.
\<close>

theorem ewma_converges:
  assumes "0 < gamma" and "gamma < 1"
  shows "(\<lambda>t. ewma_run gamma (replicate t c)) \<longlonglongrightarrow> c \<and>
    \<bar>ewma_run (9 / 10) (replicate 20 1) - 1\<bar> = (9 / 10) ^ 20 \<and>
    \<bar>ewma_run (9 / 10) (replicate 65 1) - 1\<bar> \<ge> 1 / 1000 \<and>
    \<bar>ewma_run (9 / 10) (replicate 66 1) - 1\<bar> < 1 / 1000"
proof (intro conjI)
  have p: "(\<lambda>t. gamma ^ t) \<longlonglongrightarrow> 0"
  proof (rule LIMSEQ_realpow_zero)
    show "0 \<le> gamma" using assms(1) by simp
    show "gamma < 1" by (rule assms(2))
  qed
  have "(\<lambda>t. c - c * gamma ^ t) \<longlonglongrightarrow> c - c * 0"
    by (rule tendsto_diff [OF tendsto_const tendsto_mult [OF tendsto_const p]])
  then show "(\<lambda>t. ewma_run gamma (replicate t c)) \<longlonglongrightarrow> c"
    by (simp add: ewma_run_const)
  show "\<bar>ewma_run (9 / 10) (replicate 20 1) - 1\<bar> = (9 / 10) ^ 20"
    by (simp add: ewma_run_const)
  show "\<bar>ewma_run (9 / 10) (replicate 65 1) - 1\<bar> \<ge> 1 / 1000"
    by (simp add: ewma_run_const power_divide)
  show "\<bar>ewma_run (9 / 10) (replicate 66 1) - 1\<bar> < 1 / 1000"
    by (simp add: ewma_run_const power_divide)
qed

theorem ewma_converges_witness:
  "(0::real) < 1 / 2 \<and> (1 / 2 :: real) < 1 \<and>
   (\<lambda>t. ewma_run (1 / 2) (replicate t 3)) \<longlonglongrightarrow> 3 \<and>
   ewma_run (1 / 2) [3, 3] = 9 / 4"
  using ewma_converges [of "1 / 2" 3]
  by (simp add: ewma_run_def ewma_def)

section \<open>Hyperparameters are not validated\<close>

text \<open>
  Claim C3, as stated: every update rule rejects a momentum or decay rate outside
  \<open>[0, 1)\<close> and a negative learning rate. None does: the calls below return, and the
  parameters and states are updated with the values given.
\<close>

theorem no_hyperparameter_validation_counterexample:
  "sgd_momentum [\<lparr>data = [1], grad = [1]\<rparr>] [[0]] [''lr'' \<mapsto> -1, ''momentum'' \<mapsto> 2] =
     Inr ([\<lparr>data = [2], grad = [1]\<rparr>], [[-1]], [''lr'' \<mapsto> -1, ''momentum'' \<mapsto> 2]) \<and>
   rmsprop [\<lparr>data = [1], grad = [1]\<rparr>] [[0]] [''lr'' \<mapsto> -1, ''gamma'' \<mapsto> -1] =
     Inr ([\<lparr>data = [1 + 1 / sqrt (2 + eps)], grad = [1]\<rparr>], [[2]],
          [''lr'' \<mapsto> -1, ''gamma'' \<mapsto> -1]) \<and>
   adagrad [\<lparr>data = [1], grad = [1]\<rparr>] [[0]] [''lr'' \<mapsto> -1] =
     Inr ([\<lparr>data = [1 + 1 / sqrt (1 + eps)], grad = [1]\<rparr>], [[1]], [''lr'' \<mapsto> -1]) \<and>
   adam [\<lparr>data = [1], grad = [1]\<rparr>] [([0], [0])] [''lr'' \<mapsto> -1, ''t'' \<mapsto> 1] =
     Inr ([\<lparr>data = [1 + 1000000 / 1000001], grad = [1]\<rparr>], [([1 / 10], [1 / 1000])],
          [''lr'' \<mapsto> -1, ''t'' \<mapsto> 2])"
  by (simp add: sgd_momentum_def rmsprop_def adagrad_def adam_def eval_defs beta1_def beta2_def
      eps_def)

text \<open>
  Claim C3, amended. The update rules do not validate their hyperparameters. When the
  entries an update rule reads are present (\<open>momentum\<close> and \<open>lr\<close> for \<open>sgd_momentum\<close>,
  \<open>lr\<close> for \<open>adagrad\<close>, \<open>gamma\<close> and \<open>lr\<close> for \<open>rmsprop\<close>, \<open>lr\<close> and \<open>t \<ge> 1\<close> for
  \<open>adam\<close>) and the arrays of each parameter-state pair have equal shapes, the call returns
  without an exception, whatever the values of the learning rate, the momentum and the
  decay rate are. Each rule has its own dictionary here, holding no more than it reads.
\<close>

theorem update_rules_accept_any_hyperparameters:
  "(hp1 ''momentum'' = Some m \<and> hp1 ''lr'' = Some lr1 \<and> shapes_ok same_shape params states \<longrightarrow>
      (\<exists>r. sgd_momentum params states hp1 = Inr r)) \<and>
   (hp2 ''lr'' = Some lr2 \<and> shapes_ok same_shape params states \<longrightarrow>
      (\<exists>r. adagrad params states hp2 = Inr r)) \<and>
   (hp3 ''gamma'' = Some g \<and> hp3 ''lr'' = Some lr3 \<and> shapes_ok same_shape params states \<longrightarrow>
      (\<exists>r. rmsprop params states hp3 = Inr r)) \<and>
   (hp4 ''lr'' = Some lr4 \<and> hp4 ''t'' = Some (real t) \<and> 1 \<le> t \<and>
      shapes_ok same_shape2 params states2 \<longrightarrow>
      (\<exists>r. adam params states2 hp4 = Inr r))"
  using sgd_momentum_returns [of hp1 m lr1 params states]
    adagrad_returns [of hp2 lr2 params states]
    rmsprop_returns [of hp3 g lr3 params states]
    adam_returns [of hp4 lr4 "real t" params states2]
  by blast

theorem update_rules_accept_any_hyperparameters_witness:
  "[''lr'' \<mapsto> -1, ''momentum'' \<mapsto> 2] ''momentum'' = Some (2 :: real) \<and>
   [''lr'' \<mapsto> -1, ''momentum'' \<mapsto> 2] ''lr'' = Some (-1 :: real) \<and>
   [''lr'' \<mapsto> -1 :: real] ''lr'' = Some (-1) \<and>
   [''lr'' \<mapsto> -1, ''gamma'' \<mapsto> -1] ''gamma'' = Some (-1 :: real) \<and>
   [''lr'' \<mapsto> -1, ''gamma'' \<mapsto> -1] ''lr'' = Some (-1 :: real) \<and>
   [''lr'' \<mapsto> -1, ''t'' \<mapsto> 1] ''lr'' = Some (-1 :: real) \<and>
   [''lr'' \<mapsto> -1, ''t'' \<mapsto> 1 :: real] ''t'' = Some (real 1) \<and>
   (1::nat) \<le> 1 \<and>
   shapes_ok same_shape [\<lparr>data = [1], grad = [1]\<rparr>] [[0]] \<and>
   shapes_ok same_shape2 [\<lparr>data = [1], grad = [1]\<rparr>] [([0], [0])] \<and>
   (\<exists>r. sgd_momentum [\<lparr>data = [1], grad = [1]\<rparr>] [[0]] [''lr'' \<mapsto> -1, ''momentum'' \<mapsto> 2] = Inr r) \<and>
   (\<exists>r. adagrad [\<lparr>data = [1], grad = [1]\<rparr>] [[0]] [''lr'' \<mapsto> -1] = Inr r) \<and>
   (\<exists>r. rmsprop [\<lparr>data = [1], grad = [1]\<rparr>] [[0]] [''lr'' \<mapsto> -1, ''gamma'' \<mapsto> -1] = Inr r) \<and>
   (\<exists>r. adam [\<lparr>data = [1], grad = [1]\<rparr>] [([0], [0])] [''lr'' \<mapsto> -1, ''t'' \<mapsto> 1] = Inr r)"
proof -
  have k: "[''lr'' \<mapsto> -1, ''momentum'' \<mapsto> 2] ''momentum'' = Some (2 :: real)"
    "[''lr'' \<mapsto> -1, ''momentum'' \<mapsto> 2] ''lr'' = Some (-1 :: real)"
    "[''lr'' \<mapsto> -1 :: real] ''lr'' = Some (-1)"
    "[''lr'' \<mapsto> -1, ''gamma'' \<mapsto> -1] ''gamma'' = Some (-1 :: real)"
    "[''lr'' \<mapsto> -1, ''gamma'' \<mapsto> -1] ''lr'' = Some (-1 :: real)"
    "[''lr'' \<mapsto> -1, ''t'' \<mapsto> 1] ''lr'' = Some (-1 :: real)"
    "[''lr'' \<mapsto> -1, ''t'' \<mapsto> 1 :: real] ''t'' = Some (real 1)"
    "(1::nat) \<le> 1"
    by simp_all
  have h: "shapes_ok same_shape [\<lparr>data = [1], grad = [1]\<rparr>] [[0]]"
    "shapes_ok same_shape2 [\<lparr>data = [1], grad = [1]\<rparr>] [([0], [0])]"
    by (simp_all add: shapes_ok_def same_shape_def same_shape2_def)
  show ?thesis
    using k h
      update_rules_accept_any_hyperparameters [of "[''lr'' \<mapsto> -1, ''momentum'' \<mapsto> 2]" 2 "-1"
        "[\<lparr>data = [1], grad = [1]\<rparr>]" "[[0]]" "[''lr'' \<mapsto> -1]" "-1"
        "[''lr'' \<mapsto> -1, ''gamma'' \<mapsto> -1]" "-1" "-1" "[''lr'' \<mapsto> -1, ''t'' \<mapsto> 1]" "-1" 1
        "[([0], [0])]"]
    by blast
qed

section \<open>The accumulators of RMSProp and Adagrad over many calls\<close>

text \<open>
  Claim C5. Let \<open>0 \<le> \<gamma> < 1\<close>, let the states start at zero, and let every element of
  every gradient of the sequence \<open>gss\<close> have magnitude at most \<open>G\<close>. After any number
  \<open>k\<close> of calls of \<open>rmsprop\<close> every element of every accumulator is between \<open>0\<close> and
  \<open>G\<^sup>2\<close>. Under \<open>adagrad\<close> with the constant gradient \<open>c \<noteq> 0\<close> every accumulator element
  is \<open>n c\<^sup>2\<close> after \<open>n\<close> calls, and so exceeds any bound \<open>B\<close> after enough calls.
\<close>

theorem rmsprop_bounded_adagrad_unbounded:
  assumes "hp ''gamma'' = Some gamma" and "0 \<le> gamma" and "gamma < 1"
    and "hp ''lr'' = Some lr"
    and "list_all (\<lambda>gs. map length gs = shapes params) gss"
    and "list_all (list_all (list_all (\<lambda>g. \<bar>g\<bar> \<le> G))) gss"
    and "c \<noteq> 0"
  shows "(\<exists>ps' ss'. train_steps rmsprop (take k gss) params (init_states params) hp =
            Inr (ps', ss', hp) \<and>
          list_all (list_all (\<lambda>s. 0 \<le> s \<and> s \<le> G * G)) ss') \<and>
    (\<exists>ps'. train_steps adagrad (replicate n (const_grads c params)) params
            (init_states params) hp =
          Inr (ps', map (\<lambda>p. replicate (length (data p)) (real n * (c * c))) params, hp)) \<and>
    (\<exists>m ps' ss'. train_steps adagrad (replicate m (const_grads c params)) params
            (init_states params) hp = Inr (ps', ss', hp) \<and>
          list_all (list_all (\<lambda>s. B < s)) ss')"
proof (intro conjI)
  have sh: "map length (init_states params) = shapes params"
    by (simp add: init_states_def shapes_def nd_zeros_def)
  let ?F = "\<lambda>f. foldl (\<lambda>ss gs. map2 (map2 f) ss gs)"
  show "\<exists>ps' ss'. train_steps rmsprop (take k gss) params (init_states params) hp =
            Inr (ps', ss', hp) \<and>
          list_all (list_all (\<lambda>s. 0 \<le> s \<and> s \<le> G * G)) ss'"
  proof -
    have "list_all (\<lambda>gs. map length gs = shapes params) (take k gss)"
      using assms(5) by (rule list_all_take)
    then obtain ps' where r: "train_steps rmsprop (take k gss) params (init_states params) hp =
        Inr (ps', ?F (\<lambda>si gi. ewma gamma si (gi * gi)) (init_states params) (take k gss), hp)"
      using train_steps_states [where rule = rmsprop and hp = hp
          and f = "\<lambda>si gi. ewma gamma si (gi * gi)", OF rmsprop_call [OF assms(1,4)]] sh
      by blast
    have "list_all (list_all (\<lambda>s. 0 \<le> s \<and> s \<le> G * G))
        (?F (\<lambda>si gi. ewma gamma si (gi * gi)) (init_states params) (take k gss))"
    proof (rule foldl_states_invariant [where Q = "\<lambda>g. \<bar>g\<bar> \<le> G"])
      show "0 \<le> ewma gamma si (gi * gi) \<and> ewma gamma si (gi * gi) \<le> G * G"
        if "0 \<le> si \<and> si \<le> G * G" and "\<bar>gi\<bar> \<le> G" for si gi
        using assms(2,3) that by (rule ewma_bounded)
      show "list_all (list_all (\<lambda>s. 0 \<le> s \<and> s \<le> G * G)) (init_states params)"
        by (simp add: init_states_def nd_zeros_def list_all_iff)
      show "list_all (list_all (list_all (\<lambda>g. \<bar>g\<bar> \<le> G))) (take k gss)"
        using assms(6) by (rule list_all_take)
    qed
    with r show ?thesis by blast
  qed
  have ada: "\<exists>ps'. train_steps adagrad (replicate j (const_grads c params)) params
            (init_states params) hp =
          Inr (ps', map (\<lambda>p. replicate (length (data p)) (real j * (c * c))) params, hp)" for j
  proof -
    have "list_all (\<lambda>gs. map length gs = shapes params) (replicate j (const_grads c params))"
      by (simp add: list_all_iff const_grads_def shapes_def)
    then obtain ps' where "train_steps adagrad (replicate j (const_grads c params)) params
        (init_states params) hp =
        Inr (ps', ?F (\<lambda>si gi. si + gi * gi) (init_states params)
               (replicate j (const_grads c params)), hp)"
      using train_steps_states [where rule = adagrad and hp = hp
          and f = "\<lambda>si gi. si + gi * gi", OF adagrad_call [where hp = hp and lr = lr, OF assms(4)]] sh
      by blast
    moreover have "?F (\<lambda>si gi. si + gi * gi) (init_states params)
        (replicate j (const_grads c params)) =
        map (\<lambda>p. replicate (length (data p)) (real j * (c * c))) params"
      using foldl_adagrad_const [of "\<lambda>p. length (data p)" 0 params j c]
      by (simp add: init_states_def const_grads_def nd_zeros_def)
    ultimately show ?thesis by simp
  qed
  show "\<exists>ps'. train_steps adagrad (replicate n (const_grads c params)) params
            (init_states params) hp =
          Inr (ps', map (\<lambda>p. replicate (length (data p)) (real n * (c * c))) params, hp)"
    by (rule ada)
  have "0 < c * c"
    using assms(7) by (simp add: zero_less_mult_iff less_le)
  then obtain m where m: "B < real m * (c * c)"
    using reals_Archimedean3 by blast
  obtain ps' where "train_steps adagrad (replicate m (const_grads c params)) params
            (init_states params) hp =
          Inr (ps', map (\<lambda>p. replicate (length (data p)) (real m * (c * c))) params, hp)"
    using ada [of m] by blast
  moreover have "list_all (list_all (\<lambda>s. B < s))
      (map (\<lambda>p. replicate (length (data p)) (real m * (c * c))) params)"
    using m by (simp add: list_all_iff)
  ultimately show "\<exists>m ps' ss'. train_steps adagrad (replicate m (const_grads c params)) params
            (init_states params) hp = Inr (ps', ss', hp) \<and>
          list_all (list_all (\<lambda>s. B < s)) ss'"
    by blast
qed

theorem rmsprop_bounded_adagrad_unbounded_witness:
  "[''lr'' \<mapsto> 1 / 100, ''gamma'' \<mapsto> 9 / 10] ''gamma'' = Some (9 / 10 :: real) \<and>
   (0::real) \<le> 9 / 10 \<and> (9 / 10 :: real) < 1 \<and>
   [''lr'' \<mapsto> 1 / 100, ''gamma'' \<mapsto> 9 / 10] ''lr'' = Some (1 / 100 :: real) \<and>
   list_all (\<lambda>gs. map length gs = shapes [\<lparr>data = [1, 2], grad = [0, 0]\<rparr>, \<lparr>data = [3], grad = [0]\<rparr>])
     [[[1, -1], [1 / 2]], [[-1, 1], [1]]] \<and>
   list_all (list_all (list_all (\<lambda>g. \<bar>g\<bar> \<le> (1::real)))) [[[1, -1], [1 / 2]], [[-1, 1], [1]]] \<and>
   (1::real) \<noteq> 0 \<and>
   init_states [\<lparr>data = [1, 2], grad = [0, 0]\<rparr>, \<lparr>data = [3], grad = [0]\<rparr>] =
     init_rmsprop_states 2 \<and>
   (\<exists>ps' ss'. train_steps rmsprop (take 2 [[[1, -1], [1 / 2]], [[-1, 1], [1]]])
        [\<lparr>data = [1, 2], grad = [0, 0]\<rparr>, \<lparr>data = [3], grad = [0]\<rparr>]
        (init_states [\<lparr>data = [1, 2], grad = [0, 0]\<rparr>, \<lparr>data = [3], grad = [0]\<rparr>])
        [''lr'' \<mapsto> 1 / 100, ''gamma'' \<mapsto> 9 / 10] =
          Inr (ps', ss', [''lr'' \<mapsto> 1 / 100, ''gamma'' \<mapsto> 9 / 10]) \<and>
        list_all (list_all (\<lambda>s. 0 \<le> s \<and> s \<le> 1 * 1)) ss') \<and>
   (\<exists>ps'. train_steps adagrad
        (replicate 3 (const_grads 1 [\<lparr>data = [1, 2], grad = [0, 0]\<rparr>, \<lparr>data = [3], grad = [0]\<rparr>]))
        [\<lparr>data = [1, 2], grad = [0, 0]\<rparr>, \<lparr>data = [3], grad = [0]\<rparr>]
        (init_states [\<lparr>data = [1, 2], grad = [0, 0]\<rparr>, \<lparr>data = [3], grad = [0]\<rparr>])
        [''lr'' \<mapsto> 1 / 100, ''gamma'' \<mapsto> 9 / 10] =
          Inr (ps', [[3, 3], [3]], [''lr'' \<mapsto> 1 / 100, ''gamma'' \<mapsto> 9 / 10]))"
proof -
  have h: "[''lr'' \<mapsto> 1 / 100, ''gamma'' \<mapsto> 9 / 10] ''gamma'' = Some (9 / 10 :: real)"
    "(0::real) \<le> 9 / 10" "(9 / 10 :: real) < 1"
    "[''lr'' \<mapsto> 1 / 100, ''gamma'' \<mapsto> 9 / 10] ''lr'' = Some (1 / 100 :: real)"
    "list_all (\<lambda>gs. map length gs = shapes [\<lparr>data = [1, 2], grad = [0, 0]\<rparr>, \<lparr>data = [3], grad = [0]\<rparr>])
       [[[1, -1], [1 / 2]], [[-1, 1], [1]]]"
    "list_all (list_all (list_all (\<lambda>g. \<bar>g\<bar> \<le> (1::real)))) [[[1, -1], [1 / 2]], [[-1, 1], [1]]]"
    "(1::real) \<noteq> 0"
    by (simp_all add: shapes_def)
  have i: "init_states [\<lparr>data = [1, 2], grad = [0, 0]\<rparr>, \<lparr>data = [3], grad = [0]\<rparr>] =
     init_rmsprop_states 2"
    by (simp add: init_states_def init_rmsprop_states_def numeral_2_eq_2)
  have e: "map (\<lambda>p. replicate (length (data p)) (real 3 * (1 * 1)))
      [\<lparr>data = [1, 2], grad = [0, 0]\<rparr>, \<lparr>data = [3], grad = [0]\<rparr>] = [[3, 3], [3 :: real]]"
    by (simp add: numeral_2_eq_2)
  show ?thesis
    using h i rmsprop_bounded_adagrad_unbounded [OF h, of 2 3 100, unfolded e]
    by blast
qed

end
